theory Spec2Isabelle
  imports Complex_Main "HOL-Library.Sublist"
begin

section \<open>Numbers, constants and the data model\<close>

text \<open>
  A TypeScript \<^verbatim>\<open>number\<close> is modelled as a real: arithmetic is exact, there is no
  rounding, overflow or NaN.  The one infinite value the engine produces on purpose
  (\<^verbatim>\<open>maxFlowRate = Infinity\<close>) is a constructor of its own.  \<^verbatim>\<open>Math.pow(x, n)\<close> with a
  literal integer exponent is \<open>x ^ n\<close>; \<^verbatim>\<open>Math.pow(x, y)\<close> with a fractional exponent is
  only ever applied to a positive base and is \<open>x powr y\<close>; \<^verbatim>\<open>Math.log10\<close> is \<open>log 10\<close>.
  Every division of the engine is guarded or has a positive divisor, but for one: the
  Swamee-Jain formula divides by the square of a logarithm, which is 0 when its
  argument is exactly 1.  There IEEE arithmetic gives an infinity and HOL gives
  \<open>x / 0 = 0\<close>: at that single point the value of the model is not the value of the code.
\<close>

datatype jsnumber = Finite real | Infinity

text \<open>constants/physics.ts\<close>

definition GRAVITY :: real where
  "GRAVITY = 9.81"

definition PI :: real where
  "PI = pi"

definition LAMINAR_FLOW_LIMIT :: real where
  "LAMINAR_FLOW_LIMIT = 2300"

definition TURBULENT_FLOW_START :: real where
  "TURBULENT_FLOW_START = 4000"

definition SECONDS_PER_DAY :: real where
  "SECONDS_PER_DAY = 86400"

definition ENTRY_LOSS_COEFFICIENT :: real where
  "ENTRY_LOSS_COEFFICIENT = 0.5"

definition DEFAULT_OPEN_HOLE_ROUGHNESS :: real where
  "DEFAULT_OPEN_HOLE_ROUGHNESS = 0.5"

text \<open>types.ts\<close>

record Segment =
  id_seg :: int
  diameter :: real
  length_seg :: real
  roughness :: real

datatype FlowRegime = Laminar | Transitional | Turbulent

record SegmentResult =
  segmentNumber :: nat
  diameter_res :: real
  length_res :: real
  depthFrom :: real
  depthTo :: real
  velocity :: real
  reynoldsNumber :: real
  flowRegime :: FlowRegime
  frictionFactor :: real
  frictionLoss :: real
  hydrostaticGain :: real
  minorLoss :: real
  netPressureChange :: real
  inletPressure :: real
  outletPressure :: real

record CalculationResults =
  segments_out :: "SegmentResult list"
  totalFrictionLoss :: real
  totalPressureDrop :: real
  bottomPressure :: real
  maxFlowRate :: jsnumber
  actualFlowRate :: real
  maxSegmentVelocity :: real
  maxVelocitySegment :: nat
  warnings :: "string list option"

record CalculationParams =
  segments :: "Segment list"
  flowRate :: real
  injectionPressure :: real
  bottomholePressure :: real
  fluidDensity :: real
  fluidViscosity :: real
  wellDepth :: real
  openHoleDiameter :: real

text \<open>A thrown \<^verbatim>\<open>Error(message)\<close> is the left summand of the result.\<close>

datatype error = Error string

text \<open>The decimal rendering of a segment number inside a template string.\<close>

definition digitChar :: "nat \<Rightarrow> char" where
  "digitChar d = ''0123456789'' ! d"

fun showNat :: "nat \<Rightarrow> string" where
  "showNat n = (if n < 10 then [digitChar n] else showNat (n div 10) @ [digitChar (n mod 10)])"

section \<open>engine/WellHydraulics.ts\<close>

definition calculateReynolds :: "real \<Rightarrow> real \<Rightarrow> real \<Rightarrow> real \<Rightarrow> real" where
  "calculateReynolds velocity_v diameter_d density viscosity =
     (if viscosity = 0 \<or> diameter_d = 0 then 0
      else (density * velocity_v * diameter_d) / viscosity)"

definition calculateTurbulentFriction :: "real \<Rightarrow> real \<Rightarrow> real" where
  "calculateTurbulentFriction Rey relativeRoughness =
     (let effectiveRoughness = max relativeRoughness 0.0000000001;
          logTerm = log 10 ((effectiveRoughness / 3.7) + (5.74 / (Rey powr 0.9)));
          f = 0.25 / logTerm ^ 2
      in f)"

definition calculateFrictionFactor :: "real \<Rightarrow> real \<Rightarrow> real" where
  "calculateFrictionFactor Rey relativeRoughness =
     (if Rey \<le> 0 then 0
      else if Rey < LAMINAR_FLOW_LIMIT then 64 / Rey
      else if Rey \<ge> LAMINAR_FLOW_LIMIT \<and> Rey < TURBULENT_FLOW_START then
        (let laminarF = 64 / LAMINAR_FLOW_LIMIT;
             turbulentF = calculateTurbulentFriction TURBULENT_FLOW_START relativeRoughness;
             fraction = (Rey - LAMINAR_FLOW_LIMIT) / (TURBULENT_FLOW_START - LAMINAR_FLOW_LIMIT)
         in laminarF + fraction * (turbulentF - laminarF))
      else calculateTurbulentFriction Rey relativeRoughness)"

text \<open>
  \<^verbatim>\<open>calculatePressureDrop\<close>, in the order of the source: the effective segment list,
  the constants of one loop iteration (each depends on the parameters, the effective
  list and the index only), the loop body as a transformer of the mutable locals, the
  loop, and the assembly of the result.
\<close>

text \<open>\<^verbatim>\<open>seg.length || 0\<close>: a length of 0 is the only falsy number among the reals.\<close>

definition orZero :: "real \<Rightarrow> real" where
  "orZero x = (if x = 0 then 0 else x)"

definition totalSegmentLength :: "CalculationParams \<Rightarrow> real" where
  "totalSegmentLength params = foldl (\<lambda>sum seg. sum + orZero (length_seg seg)) 0 (segments params)"

definition openHoleLength :: "CalculationParams \<Rightarrow> real" where
  "openHoleLength params = max 0 (wellDepth params - totalSegmentLength params)"

definition openHoleSegment :: "CalculationParams \<Rightarrow> Segment" where
  "openHoleSegment params =
     \<lparr>id_seg = -1, diameter = openHoleDiameter params, length_seg = openHoleLength params,
      roughness = DEFAULT_OPEN_HOLE_ROUGHNESS\<rparr>"

definition allSegments :: "CalculationParams \<Rightarrow> error + Segment list" where
  "allSegments params =
     (if openHoleLength params > 0.1 then
        (if openHoleDiameter params \<le> 0
         then Inl (Error ''Open hole diameter must be a positive value.'')
         else Inr (segments params @ [openHoleSegment params]))
      else Inr (segments params))"

definition loc_Q :: "CalculationParams \<Rightarrow> real" where
  "loc_Q params = flowRate params / SECONDS_PER_DAY"

definition loc_D :: "Segment list \<Rightarrow> nat \<Rightarrow> real" where
  "loc_D segs index = diameter (segs ! index) / 1000"

definition loc_L :: "Segment list \<Rightarrow> nat \<Rightarrow> real" where
  "loc_L segs index = length_seg (segs ! index)"

definition loc_A :: "Segment list \<Rightarrow> nat \<Rightarrow> real" where
  "loc_A segs index = PI * (loc_D segs index / 2) ^ 2"

definition loc_V :: "CalculationParams \<Rightarrow> Segment list \<Rightarrow> nat \<Rightarrow> real" where
  "loc_V params segs index = loc_Q params / loc_A segs index"

definition loc_Re :: "CalculationParams \<Rightarrow> Segment list \<Rightarrow> nat \<Rightarrow> real" where
  "loc_Re params segs index =
     calculateReynolds (loc_V params segs index) (loc_D segs index)
       (fluidDensity params) (fluidViscosity params)"

definition loc_relativeRoughness :: "Segment list \<Rightarrow> nat \<Rightarrow> real" where
  "loc_relativeRoughness segs index = roughness (segs ! index) / (loc_D segs index * 1000)"

definition loc_f :: "CalculationParams \<Rightarrow> Segment list \<Rightarrow> nat \<Rightarrow> real" where
  "loc_f params segs index =
     calculateFrictionFactor (loc_Re params segs index) (loc_relativeRoughness segs index)"

definition loc_hf :: "CalculationParams \<Rightarrow> Segment list \<Rightarrow> nat \<Rightarrow> real" where
  "loc_hf params segs index =
     (if loc_V params segs index = 0 then 0
      else loc_f params segs index * (loc_L segs index / loc_D segs index)
           * ((loc_V params segs index) ^ 2 / (2 * GRAVITY)))"

definition loc_frictionPressureLoss :: "CalculationParams \<Rightarrow> Segment list \<Rightarrow> nat \<Rightarrow> real" where
  "loc_frictionPressureLoss params segs index =
     fluidDensity params * GRAVITY * loc_hf params segs index"

definition loc_hydrostaticGain :: "CalculationParams \<Rightarrow> Segment list \<Rightarrow> nat \<Rightarrow> real" where
  "loc_hydrostaticGain params segs index = fluidDensity params * GRAVITY * loc_L segs index"

definition loc_minorLoss :: "CalculationParams \<Rightarrow> Segment list \<Rightarrow> nat \<Rightarrow> real" where
  "loc_minorLoss params segs index =
     (let A = loc_A segs index;
          V = loc_V params segs index;
          Q = loc_Q params;
          minorLoss0 = 0;
          minorLoss1 =
            (if index = 0
             then minorLoss0 + ENTRY_LOSS_COEFFICIENT * fluidDensity params * V ^ 2 / 2
             else minorLoss0)
      in if index > 0 then
           (let prevD = diameter (segs ! (index - 1)) / 1000;
                prevA = PI * (prevD / 2) ^ 2
            in if A > 0 \<and> prevA > 0 \<and> Q > 0 then
                 (let prevV = Q / prevA
                  in if A < prevA then
                       (let areaRatio = A / prevA;
                            Cc = 0.62 + 0.38 * areaRatio ^ 3;
                            Kc = ((1 / Cc) - 1) ^ 2
                        in minorLoss1 + Kc * fluidDensity params * V ^ 2 / 2)
                     else if A > prevA then
                       (let Ke = (1 - (prevA / A)) ^ 2
                        in minorLoss1 + Ke * fluidDensity params * prevV ^ 2 / 2)
                     else minorLoss1)
               else minorLoss1)
         else minorLoss1)"

definition loc_netPressureChange :: "CalculationParams \<Rightarrow> Segment list \<Rightarrow> nat \<Rightarrow> real" where
  "loc_netPressureChange params segs index =
     loc_hydrostaticGain params segs index - loc_frictionPressureLoss params segs index
       - loc_minorLoss params segs index"

definition loc_flowRegime :: "CalculationParams \<Rightarrow> Segment list \<Rightarrow> nat \<Rightarrow> FlowRegime" where
  "loc_flowRegime params segs index =
     (if loc_Re params segs index < LAMINAR_FLOW_LIMIT then Laminar
      else if loc_Re params segs index < TURBULENT_FLOW_START then Transitional
      else Turbulent)"

definition cavitationPrefix :: string where
  "cavitationPrefix = ''Cavitation risk:''"

definition cavitationWarning :: "nat \<Rightarrow> string" where
  "cavitationWarning n =
     ''Cavitation risk: Negative absolute pressure calculated in segment '' @ showNat n @
     ''. The results are physically unrealistic. This indicates the injection pressure is too low for the given flow rate, or the flow rate is too high.''"

text \<open>The locals the loop mutates.\<close>

record MarchState =
  currentPressure :: real
  totalFrictionLoss_acc :: real
  totalPressureDrop_acc :: real
  segmentResults :: "SegmentResult list"
  warnings_acc :: "string list"
  cumulativeDepth :: real
  maxVelocity :: real
  maxVelocitySegment_acc :: nat
  frictionLosses :: "(real \<times> FlowRegime) list"

definition initialState :: "CalculationParams \<Rightarrow> MarchState" where
  "initialState params =
     \<lparr>currentPressure = injectionPressure params * 1000,
      totalFrictionLoss_acc = 0,
      totalPressureDrop_acc = 0,
      segmentResults = [],
      warnings_acc = [],
      cumulativeDepth = 0,
      maxVelocity = 0,
      maxVelocitySegment_acc = 0,
      frictionLosses = []\<rparr>"

definition loopBody :: "CalculationParams \<Rightarrow> Segment list \<Rightarrow> nat \<Rightarrow> MarchState \<Rightarrow> error + MarchState" where
  "loopBody params segs index st =
     (if loc_D segs index \<le> 0 then
        Inl (Error (''Invalid diameter for segment '' @ showNat (index + 1) @
                    ''. Diameter must be greater than 0.''))
      else if loc_A segs index \<le> 0 then
        Inl (Error (''Invalid segment diameter for segment '' @ showNat (index + 1) @
                    ''; area cannot be zero or negative.''))
      else
        (let segment = segs ! index;
             L = loc_L segs index;
             V = loc_V params segs index;
             frictionPressureLoss = loc_frictionPressureLoss params segs index;
             minorLoss_v = loc_minorLoss params segs index;
             inletPressure_v = currentPressure st;
             netPressureChange_v = loc_netPressureChange params segs index;
             currentPressure_v = currentPressure st + netPressureChange_v;
             hasCavitationWarning = list_ex (\<lambda>w. prefix cavitationPrefix w) (warnings_acc st);
             depthFrom_v = cumulativeDepth st;
             cumulativeDepth_v = cumulativeDepth st + L;
             flowRegime_v = loc_flowRegime params segs index
         in Inr
          \<lparr>currentPressure = currentPressure_v,
           totalFrictionLoss_acc = totalFrictionLoss_acc st + frictionPressureLoss,
           totalPressureDrop_acc = totalPressureDrop_acc st + (frictionPressureLoss + minorLoss_v),
           segmentResults =
             (if id_seg segment \<noteq> -1 then
                segmentResults st @
                [\<lparr>segmentNumber = index + 1,
                  diameter_res = diameter segment,
                  length_res = L,
                  depthFrom = depthFrom_v,
                  depthTo = cumulativeDepth_v,
                  velocity = V,
                  reynoldsNumber = loc_Re params segs index,
                  flowRegime = flowRegime_v,
                  frictionFactor = loc_f params segs index,
                  frictionLoss = frictionPressureLoss / 1000,
                  hydrostaticGain = loc_hydrostaticGain params segs index / 1000,
                  minorLoss = minorLoss_v / 1000,
                  netPressureChange = netPressureChange_v / 1000,
                  inletPressure = inletPressure_v / 1000,
                  outletPressure = currentPressure_v / 1000\<rparr>]
              else segmentResults st),
           warnings_acc =
             (if currentPressure_v < 0 \<and> \<not> hasCavitationWarning
              then warnings_acc st @ [cavitationWarning (index + 1)]
              else warnings_acc st),
           cumulativeDepth = cumulativeDepth_v,
           maxVelocity = (if V > maxVelocity st then V else maxVelocity st),
           maxVelocitySegment_acc =
             (if V > maxVelocity st then index + 1 else maxVelocitySegment_acc st),
           frictionLosses = frictionLosses st @ [(frictionPressureLoss, flowRegime_v)]\<rparr>))"

text \<open>
  The \<^verbatim>\<open>for\<close> loop: the body at each index of the list in turn, left at the first
  throw.  \<open>iterate body [0..<k] st\<close> is the state after the first \<open>k\<close> iterations.
\<close>

fun iterate :: "(nat \<Rightarrow> 's \<Rightarrow> error + 's) \<Rightarrow> nat list \<Rightarrow> 's \<Rightarrow> error + 's" where
  "iterate body [] st = Inr st"
| "iterate body (i # is) st =
     (case body i st of Inl e \<Rightarrow> Inl e | Inr st' \<Rightarrow> iterate body is st')"

definition marchTo :: "CalculationParams \<Rightarrow> Segment list \<Rightarrow> nat \<Rightarrow> error + MarchState" where
  "marchTo params segs k = iterate (loopBody params segs) [0..<k] (initialState params)"

definition march :: "CalculationParams \<Rightarrow> Segment list \<Rightarrow> error + MarchState" where
  "march params segs = marchTo params segs (length segs)"

text \<open>\<^verbatim>\<open>frictionLosses.reduce((max, current) => current.loss > max.loss ? current : max)\<close>\<close>

definition maxFrictionSegment :: "(real \<times> FlowRegime) list \<Rightarrow> real \<times> FlowRegime" where
  "maxFrictionSegment fl =
     foldl (\<lambda>mx current. if fst current > fst mx then current else mx) (hd fl) (tl fl)"

definition dominantRegime :: "(real \<times> FlowRegime) list \<Rightarrow> FlowRegime" where
  "dominantRegime fl =
     (if length fl > 0 then
        (if snd (maxFrictionSegment fl) = Laminar then Laminar else Turbulent)
      else Turbulent)"

definition flowExponent :: "(real \<times> FlowRegime) list \<Rightarrow> real" where
  "flowExponent fl = (if dominantRegime fl = Laminar then 1.0 else 2.0)"

definition totalHydrostatic :: "CalculationParams \<Rightarrow> real" where
  "totalHydrostatic params = fluidDensity params * GRAVITY * wellDepth params"

definition availablePressure :: "CalculationParams \<Rightarrow> real" where
  "availablePressure params =
     (injectionPressure params * 1000) + totalHydrostatic params
       - (bottomholePressure params * 1000)"

definition assemble :: "CalculationParams \<Rightarrow> MarchState \<Rightarrow> CalculationResults" where
  "assemble params st =
     \<lparr>segments_out = segmentResults st,
      totalFrictionLoss = totalFrictionLoss_acc st / 1000,
      totalPressureDrop = totalPressureDrop_acc st / 1000,
      bottomPressure = currentPressure st / 1000,
      maxFlowRate =
        (if availablePressure params \<le> 0 then Finite 0
         else if totalPressureDrop_acc st \<le> 0 \<or> loc_Q params = 0 then Infinity
         else Finite (flowRate params *
                (availablePressure params / totalPressureDrop_acc st)
                  powr (1 / flowExponent (frictionLosses st)))),
      actualFlowRate = flowRate params,
      maxSegmentVelocity = maxVelocity st,
      maxVelocitySegment = maxVelocitySegment_acc st,
      warnings = (if length (warnings_acc st) > 0 then Some (warnings_acc st) else None)\<rparr>"

definition calculatePressureDrop :: "CalculationParams \<Rightarrow> error + CalculationResults" where
  "calculatePressureDrop params =
     (case allSegments params of
        Inl e \<Rightarrow> Inl e
      | Inr segs \<Rightarrow>
          (case march params segs of
             Inl e \<Rightarrow> Inl e
           | Inr st \<Rightarrow> Inr (assemble params st)))"

section \<open>services/calculatorService.ts\<close>

text \<open>
  The service module repeats the engine; it is transcribed on its own, from its own
  source, over the same types, constants and loop combinator.
\<close>

definition CS_calculateReynolds :: "real \<Rightarrow> real \<Rightarrow> real \<Rightarrow> real \<Rightarrow> real" where
  "CS_calculateReynolds velocity_v diameter_d density viscosity =
     (if viscosity = 0 \<or> diameter_d = 0 then 0
      else (density * velocity_v * diameter_d) / viscosity)"

definition CS_calculateTurbulentFriction :: "real \<Rightarrow> real \<Rightarrow> real" where
  "CS_calculateTurbulentFriction Rey relativeRoughness =
     (let effectiveRoughness = max relativeRoughness 0.0000000001;
          logTerm = log 10 ((effectiveRoughness / 3.7) + (5.74 / (Rey powr 0.9)));
          f = 0.25 / logTerm ^ 2
      in f)"

definition CS_calculateFrictionFactor :: "real \<Rightarrow> real \<Rightarrow> real" where
  "CS_calculateFrictionFactor Rey relativeRoughness =
     (if Rey \<le> 0 then 0
      else if Rey < LAMINAR_FLOW_LIMIT then 64 / Rey
      else if Rey \<ge> LAMINAR_FLOW_LIMIT \<and> Rey < TURBULENT_FLOW_START then
        (let laminarF = 64 / LAMINAR_FLOW_LIMIT;
             turbulentF = CS_calculateTurbulentFriction TURBULENT_FLOW_START relativeRoughness;
             fraction = (Rey - LAMINAR_FLOW_LIMIT) / (TURBULENT_FLOW_START - LAMINAR_FLOW_LIMIT)
         in laminarF + fraction * (turbulentF - laminarF))
      else CS_calculateTurbulentFriction Rey relativeRoughness)"

definition CS_totalSegmentLength :: "CalculationParams \<Rightarrow> real" where
  "CS_totalSegmentLength params = foldl (\<lambda>sum seg. sum + orZero (length_seg seg)) 0 (segments params)"

definition CS_openHoleLength :: "CalculationParams \<Rightarrow> real" where
  "CS_openHoleLength params = max 0 (wellDepth params - CS_totalSegmentLength params)"

definition CS_openHoleSegment :: "CalculationParams \<Rightarrow> Segment" where
  "CS_openHoleSegment params =
     \<lparr>id_seg = -1, diameter = openHoleDiameter params, length_seg = CS_openHoleLength params,
      roughness = DEFAULT_OPEN_HOLE_ROUGHNESS\<rparr>"

definition CS_allSegments :: "CalculationParams \<Rightarrow> error + Segment list" where
  "CS_allSegments params =
     (if CS_openHoleLength params > 0.1 then
        (if openHoleDiameter params \<le> 0
         then Inl (Error ''Open hole diameter must be a positive value.'')
         else Inr (segments params @ [CS_openHoleSegment params]))
      else Inr (segments params))"

definition CS_loc_Q :: "CalculationParams \<Rightarrow> real" where
  "CS_loc_Q params = flowRate params / SECONDS_PER_DAY"

definition CS_loc_D :: "Segment list \<Rightarrow> nat \<Rightarrow> real" where
  "CS_loc_D segs index = diameter (segs ! index) / 1000"

definition CS_loc_L :: "Segment list \<Rightarrow> nat \<Rightarrow> real" where
  "CS_loc_L segs index = length_seg (segs ! index)"

definition CS_loc_A :: "Segment list \<Rightarrow> nat \<Rightarrow> real" where
  "CS_loc_A segs index = PI * (CS_loc_D segs index / 2) ^ 2"

definition CS_loc_V :: "CalculationParams \<Rightarrow> Segment list \<Rightarrow> nat \<Rightarrow> real" where
  "CS_loc_V params segs index = CS_loc_Q params / CS_loc_A segs index"

definition CS_loc_Re :: "CalculationParams \<Rightarrow> Segment list \<Rightarrow> nat \<Rightarrow> real" where
  "CS_loc_Re params segs index =
     CS_calculateReynolds (CS_loc_V params segs index) (CS_loc_D segs index)
       (fluidDensity params) (fluidViscosity params)"

definition CS_loc_relativeRoughness :: "Segment list \<Rightarrow> nat \<Rightarrow> real" where
  "CS_loc_relativeRoughness segs index = roughness (segs ! index) / (CS_loc_D segs index * 1000)"

definition CS_loc_f :: "CalculationParams \<Rightarrow> Segment list \<Rightarrow> nat \<Rightarrow> real" where
  "CS_loc_f params segs index =
     CS_calculateFrictionFactor (CS_loc_Re params segs index) (CS_loc_relativeRoughness segs index)"

definition CS_loc_hf :: "CalculationParams \<Rightarrow> Segment list \<Rightarrow> nat \<Rightarrow> real" where
  "CS_loc_hf params segs index =
     (if CS_loc_V params segs index = 0 then 0
      else CS_loc_f params segs index * (CS_loc_L segs index / CS_loc_D segs index)
           * ((CS_loc_V params segs index) ^ 2 / (2 * GRAVITY)))"

definition CS_loc_frictionPressureLoss :: "CalculationParams \<Rightarrow> Segment list \<Rightarrow> nat \<Rightarrow> real" where
  "CS_loc_frictionPressureLoss params segs index =
     fluidDensity params * GRAVITY * CS_loc_hf params segs index"

definition CS_loc_hydrostaticGain :: "CalculationParams \<Rightarrow> Segment list \<Rightarrow> nat \<Rightarrow> real" where
  "CS_loc_hydrostaticGain params segs index = fluidDensity params * GRAVITY * CS_loc_L segs index"

definition CS_loc_minorLoss :: "CalculationParams \<Rightarrow> Segment list \<Rightarrow> nat \<Rightarrow> real" where
  "CS_loc_minorLoss params segs index =
     (let A = CS_loc_A segs index;
          V = CS_loc_V params segs index;
          Q = CS_loc_Q params;
          minorLoss0 = 0;
          minorLoss1 =
            (if index = 0
             then minorLoss0 + ENTRY_LOSS_COEFFICIENT * fluidDensity params * V ^ 2 / 2
             else minorLoss0)
      in if index > 0 then
           (let prevD = diameter (segs ! (index - 1)) / 1000;
                prevA = PI * (prevD / 2) ^ 2
            in if A > 0 \<and> prevA > 0 \<and> Q > 0 then
                 (let prevV = Q / prevA
                  in if A < prevA then
                       (let areaRatio = A / prevA;
                            Cc = 0.62 + 0.38 * areaRatio ^ 3;
                            Kc = ((1 / Cc) - 1) ^ 2
                        in minorLoss1 + Kc * fluidDensity params * V ^ 2 / 2)
                     else if A > prevA then
                       (let Ke = (1 - (prevA / A)) ^ 2
                        in minorLoss1 + Ke * fluidDensity params * prevV ^ 2 / 2)
                     else minorLoss1)
               else minorLoss1)
         else minorLoss1)"

definition CS_loc_netPressureChange :: "CalculationParams \<Rightarrow> Segment list \<Rightarrow> nat \<Rightarrow> real" where
  "CS_loc_netPressureChange params segs index =
     CS_loc_hydrostaticGain params segs index - CS_loc_frictionPressureLoss params segs index
       - CS_loc_minorLoss params segs index"

definition CS_loc_flowRegime :: "CalculationParams \<Rightarrow> Segment list \<Rightarrow> nat \<Rightarrow> FlowRegime" where
  "CS_loc_flowRegime params segs index =
     (if CS_loc_Re params segs index < LAMINAR_FLOW_LIMIT then Laminar
      else if CS_loc_Re params segs index < TURBULENT_FLOW_START then Transitional
      else Turbulent)"

definition CS_cavitationPrefix :: string where
  "CS_cavitationPrefix = ''Cavitation risk:''"

definition CS_cavitationWarning :: "nat \<Rightarrow> string" where
  "CS_cavitationWarning n =
     ''Cavitation risk: Negative absolute pressure calculated in segment '' @ showNat n @
     ''. The results are physically unrealistic. This indicates the injection pressure is too low for the given flow rate, or the flow rate is too high.''"

definition CS_initialState :: "CalculationParams \<Rightarrow> MarchState" where
  "CS_initialState params =
     \<lparr>currentPressure = injectionPressure params * 1000,
      totalFrictionLoss_acc = 0,
      totalPressureDrop_acc = 0,
      segmentResults = [],
      warnings_acc = [],
      cumulativeDepth = 0,
      maxVelocity = 0,
      maxVelocitySegment_acc = 0,
      frictionLosses = []\<rparr>"

definition CS_loopBody :: "CalculationParams \<Rightarrow> Segment list \<Rightarrow> nat \<Rightarrow> MarchState \<Rightarrow> error + MarchState" where
  "CS_loopBody params segs index st =
     (if CS_loc_D segs index \<le> 0 then
        Inl (Error (''Invalid diameter for segment '' @ showNat (index + 1) @
                    ''. Diameter must be greater than 0.''))
      else if CS_loc_A segs index \<le> 0 then
        Inl (Error (''Invalid segment diameter for segment '' @ showNat (index + 1) @
                    ''; area cannot be zero or negative.''))
      else
        (let segment = segs ! index;
             L = CS_loc_L segs index;
             V = CS_loc_V params segs index;
             frictionPressureLoss = CS_loc_frictionPressureLoss params segs index;
             minorLoss_v = CS_loc_minorLoss params segs index;
             inletPressure_v = currentPressure st;
             netPressureChange_v = CS_loc_netPressureChange params segs index;
             currentPressure_v = currentPressure st + netPressureChange_v;
             hasCavitationWarning = list_ex (\<lambda>w. prefix CS_cavitationPrefix w) (warnings_acc st);
             depthFrom_v = cumulativeDepth st;
             cumulativeDepth_v = cumulativeDepth st + L;
             flowRegime_v = CS_loc_flowRegime params segs index
         in Inr
          \<lparr>currentPressure = currentPressure_v,
           totalFrictionLoss_acc = totalFrictionLoss_acc st + frictionPressureLoss,
           totalPressureDrop_acc = totalPressureDrop_acc st + (frictionPressureLoss + minorLoss_v),
           segmentResults =
             (if id_seg segment \<noteq> -1 then
                segmentResults st @
                [\<lparr>segmentNumber = index + 1,
                  diameter_res = diameter segment,
                  length_res = L,
                  depthFrom = depthFrom_v,
                  depthTo = cumulativeDepth_v,
                  velocity = V,
                  reynoldsNumber = CS_loc_Re params segs index,
                  flowRegime = flowRegime_v,
                  frictionFactor = CS_loc_f params segs index,
                  frictionLoss = frictionPressureLoss / 1000,
                  hydrostaticGain = CS_loc_hydrostaticGain params segs index / 1000,
                  minorLoss = minorLoss_v / 1000,
                  netPressureChange = netPressureChange_v / 1000,
                  inletPressure = inletPressure_v / 1000,
                  outletPressure = currentPressure_v / 1000\<rparr>]
              else segmentResults st),
           warnings_acc =
             (if currentPressure_v < 0 \<and> \<not> hasCavitationWarning
              then warnings_acc st @ [CS_cavitationWarning (index + 1)]
              else warnings_acc st),
           cumulativeDepth = cumulativeDepth_v,
           maxVelocity = (if V > maxVelocity st then V else maxVelocity st),
           maxVelocitySegment_acc =
             (if V > maxVelocity st then index + 1 else maxVelocitySegment_acc st),
           frictionLosses = frictionLosses st @ [(frictionPressureLoss, flowRegime_v)]\<rparr>))"

definition CS_marchTo :: "CalculationParams \<Rightarrow> Segment list \<Rightarrow> nat \<Rightarrow> error + MarchState" where
  "CS_marchTo params segs k = iterate (CS_loopBody params segs) [0..<k] (CS_initialState params)"

definition CS_march :: "CalculationParams \<Rightarrow> Segment list \<Rightarrow> error + MarchState" where
  "CS_march params segs = CS_marchTo params segs (length segs)"

text \<open>\<^verbatim>\<open>frictionLosses.reduce((max, current) => current.loss > max.loss ? current : max)\<close>\<close>

definition CS_maxFrictionSegment :: "(real \<times> FlowRegime) list \<Rightarrow> real \<times> FlowRegime" where
  "CS_maxFrictionSegment fl =
     foldl (\<lambda>mx current. if fst current > fst mx then current else mx) (hd fl) (tl fl)"

definition CS_dominantRegime :: "(real \<times> FlowRegime) list \<Rightarrow> FlowRegime" where
  "CS_dominantRegime fl =
     (if length fl > 0 then
        (if snd (CS_maxFrictionSegment fl) = Laminar then Laminar else Turbulent)
      else Turbulent)"

definition CS_flowExponent :: "(real \<times> FlowRegime) list \<Rightarrow> real" where
  "CS_flowExponent fl = (if CS_dominantRegime fl = Laminar then 1.0 else 2.0)"

definition CS_totalHydrostatic :: "CalculationParams \<Rightarrow> real" where
  "CS_totalHydrostatic params = fluidDensity params * GRAVITY * wellDepth params"

definition CS_availablePressure :: "CalculationParams \<Rightarrow> real" where
  "CS_availablePressure params =
     (injectionPressure params * 1000) + CS_totalHydrostatic params
       - (bottomholePressure params * 1000)"

definition CS_assemble :: "CalculationParams \<Rightarrow> MarchState \<Rightarrow> CalculationResults" where
  "CS_assemble params st =
     \<lparr>segments_out = segmentResults st,
      totalFrictionLoss = totalFrictionLoss_acc st / 1000,
      totalPressureDrop = totalPressureDrop_acc st / 1000,
      bottomPressure = currentPressure st / 1000,
      maxFlowRate =
        (if CS_availablePressure params \<le> 0 then Finite 0
         else if totalPressureDrop_acc st \<le> 0 \<or> CS_loc_Q params = 0 then Infinity
         else Finite (flowRate params *
                (CS_availablePressure params / totalPressureDrop_acc st)
                  powr (1 / CS_flowExponent (frictionLosses st)))),
      actualFlowRate = flowRate params,
      maxSegmentVelocity = maxVelocity st,
      maxVelocitySegment = maxVelocitySegment_acc st,
      warnings = (if length (warnings_acc st) > 0 then Some (warnings_acc st) else None)\<rparr>"

definition CS_calculatePressureDrop :: "CalculationParams \<Rightarrow> error + CalculationResults" where
  "CS_calculatePressureDrop params =
     (case CS_allSegments params of
        Inl e \<Rightarrow> Inl e
      | Inr segs \<Rightarrow>
          (case CS_march params segs of
             Inl e \<Rightarrow> Inl e
           | Inr st \<Rightarrow> Inr (CS_assemble params st)))"

section \<open>Inputs of the repository's test suites\<close>

text \<open>\<^verbatim>\<open>basicParams\<close> of \<^verbatim>\<open>__tests__/engine/WellHydraulics.test.ts\<close>.\<close>

definition basicParams :: CalculationParams where
  "basicParams =
     \<lparr>segments = [\<lparr>id_seg = 1, diameter = 100, length_seg = 100, roughness = 0.046\<rparr>],
      flowRate = 100,
      injectionPressure = 5000,
      bottomholePressure = 15000,
      fluidDensity = 1000,
      fluidViscosity = 0.001,
      wellDepth = 100,
      openHoleDiameter = 150\<rparr>"

text \<open>The input of "should handle zero flow rate" in \<^verbatim>\<open>services/calculatorService.test.ts\<close>.\<close>

definition zeroFlowParams :: CalculationParams where
  "zeroFlowParams =
     \<lparr>segments = [\<lparr>id_seg = 1, diameter = 100, length_seg = 1000, roughness = 0.05\<rparr>],
      flowRate = 0,
      injectionPressure = 5000,
      bottomholePressure = 15000,
      fluidDensity = 1000,
      fluidViscosity = 0.001,
      wellDepth = 1000,
      openHoleDiameter = 0\<rparr>"

text \<open>The segments of "should handle multiple segments" in \<^verbatim>\<open>__tests__/engine/WellHydraulics.test.ts\<close>.\<close>

definition twoSegments :: "Segment list" where
  "twoSegments =
     [\<lparr>id_seg = 1, diameter = 100, length_seg = 50, roughness = 0.046\<rparr>,
      \<lparr>id_seg = 2, diameter = 80, length_seg = 50, roughness = 0.046\<rparr>]"

text \<open>
  A heavy-oil operating point, for a laminar run with a positive available pressure:
  one segment of diameter 1 m and length 1 m with wall roughness \<open>rough\<close>, density
  1000, viscosity 1, and the flow rate that gives the velocity \<open>k\<close> m/s, hence the
  Reynolds number \<open>1000 k\<close>.
\<close>

definition oilParams :: "real \<Rightarrow> real \<Rightarrow> CalculationParams" where
  "oilParams rough k =
     \<lparr>segments = [\<lparr>id_seg = 1, diameter = 1000, length_seg = 1, roughness = rough\<rparr>],
      flowRate = 21600 * k * pi,
      injectionPressure = 0,
      bottomholePressure = 9.460975,
      fluidDensity = 1000,
      fluidViscosity = 1,
      wellDepth = 1,
      openHoleDiameter = 0\<rparr>"

section \<open>Reynolds number and friction factor\<close>

declare showNat.simps [simp del]

text \<open>
  C8.  \<^verbatim>\<open>calculateReynolds\<close> has no failing branch (it is a total function into the
  numbers, with no error summand); it returns exactly 0 when the viscosity or the
  diameter is 0, and \<open>\<rho> v d / \<mu>\<close> otherwise.
\<close>

theorem calculateReynolds_contract:
  "(mu = 0 \<or> d = 0 \<longrightarrow> calculateReynolds v d rho mu = 0) \<and>
   (mu \<noteq> 0 \<and> d \<noteq> 0 \<longrightarrow> calculateReynolds v d rho mu = rho * v * d / mu)"
  by (simp add: calculateReynolds_def)

theorem calculateReynolds_contract_witness:
  "calculateReynolds 2 0.1 1000 0 = 0 \<and> calculateReynolds 2 0 1000 0.001 = 0 \<and>
   calculateReynolds 2 0.1 1000 0.001 = 200000"
  using calculateReynolds_contract [of 0 "0.1" 2 1000]
    calculateReynolds_contract [of "0.001" 0 2 1000]
    calculateReynolds_contract [of "0.001" "0.1" 2 1000]
  by simp

text \<open>
  C1.  The friction factor by regime: 0 for \<open>Re \<le> 0\<close>; \<open>64 / Re\<close> for \<open>0 < Re < 2300\<close>;
  for \<open>2300 \<le> Re < 4000\<close> the linear interpolation between \<open>64 / 2300\<close> and the
  Swamee-Jain value at \<open>Re = 4000\<close>, weighted by \<open>(Re - 2300) / (4000 - 2300)\<close>; and for
  \<open>Re \<ge> 4000\<close> the Swamee-Jain value
  \<open>0.25 / (log10 (max rr 1e-10 / 3.7 + 5.74 / Re^0.9))\<^sup>2\<close>.
\<close>

theorem calculateFrictionFactor_regimes:
  "(Rey \<le> 0 \<longrightarrow> calculateFrictionFactor Rey rr = 0) \<and>
   (0 < Rey \<and> Rey < 2300 \<longrightarrow> calculateFrictionFactor Rey rr = 64 / Rey) \<and>
   (2300 \<le> Rey \<and> Rey < 4000 \<longrightarrow>
      calculateFrictionFactor Rey rr =
        64 / 2300 + ((Rey - 2300) / (4000 - 2300)) *
          (0.25 / (log 10 (max rr 0.0000000001 / 3.7 + 5.74 / (4000 powr 0.9)))\<^sup>2 - 64 / 2300)) \<and>
   (4000 \<le> Rey \<longrightarrow>
      calculateFrictionFactor Rey rr =
        0.25 / (log 10 (max rr 0.0000000001 / 3.7 + 5.74 / (Rey powr 0.9)))\<^sup>2)"
  by (simp add: calculateFrictionFactor_def calculateTurbulentFriction_def
      LAMINAR_FLOW_LIMIT_def TURBULENT_FLOW_START_def Let_def)

theorem calculateFrictionFactor_regimes_witness:
  "calculateFrictionFactor 0 0.001 = 0 \<and>
   calculateFrictionFactor 2000 0.001 = 64 / 2000 \<and>
   calculateFrictionFactor 2300 0.001 = 64 / 2300 \<and>
   calculateFrictionFactor 100000 0.001 =
     0.25 / (log 10 (0.001 / 3.7 + 5.74 / (100000 powr 0.9)))\<^sup>2"
  using calculateFrictionFactor_regimes [of 0 "0.001"]
    calculateFrictionFactor_regimes [of 2000 "0.001"]
    calculateFrictionFactor_regimes [of 2300 "0.001"]
    calculateFrictionFactor_regimes [of 100000 "0.001"]
  by simp

section \<open>The loop: states after each iteration\<close>

lemma iterate_append:
  "iterate b (xs @ ys) st = (case iterate b xs st of Inl e \<Rightarrow> Inl e | Inr s \<Rightarrow> iterate b ys s)"
  by (induction xs arbitrary: st) (auto split: sum.splits)

lemma marchTo_0: "marchTo p segs 0 = Inr (initialState p)"
  by (simp add: marchTo_def)

lemma marchTo_Suc:
  "marchTo p segs (Suc k) =
     (case marchTo p segs k of Inl e \<Rightarrow> Inl e | Inr s \<Rightarrow> loopBody p segs k s)"
  by (simp add: marchTo_def iterate_append split: sum.splits)

lemma marchTo_Suc_Inr:
  assumes "marchTo p segs (Suc k) = Inr s'"
  obtains s where "marchTo p segs k = Inr s" and "loopBody p segs k s = Inr s'"
  using assms by (auto simp: marchTo_Suc split: sum.splits)

lemma marchTo_prefix:
  "marchTo p segs n = Inr st \<Longrightarrow> k \<le> n \<Longrightarrow> \<exists>s. marchTo p segs k = Inr s"
proof (induction n arbitrary: st)
  case 0
  then show ?case by simp
next
  case (Suc n)
  show ?case
  proof (cases "k = Suc n")
    case True
    with Suc.prems show ?thesis by blast
  next
    case False
    with Suc.prems have "k \<le> n" by simp
    moreover obtain s where "marchTo p segs n = Inr s"
      using Suc.prems(1) by (rule marchTo_Suc_Inr)
    ultimately show ?thesis using Suc.IH by blast
  qed
qed

lemma PI_pos: "0 < PI" by (simp add: PI_def)

lemma loc_A_pos: "0 < loc_D segs i \<Longrightarrow> 0 < loc_A segs i"
  by (simp add: loc_A_def PI_pos)

lemma loopBody_Inr_D: "loopBody p segs i st = Inr st' \<Longrightarrow> 0 < loc_D segs i"
  by (auto simp: loopBody_def Let_def split: if_splits)

lemma loopBody_succeeds: "0 < loc_D segs i \<Longrightarrow> \<exists>st'. loopBody p segs i st = Inr st'"
  using loc_A_pos [of segs i] by (simp add: loopBody_def Let_def)

lemma loopBody_fields:
  assumes "loopBody p segs i st = Inr st'"
  shows "currentPressure st' = currentPressure st + loc_netPressureChange p segs i"
    and "totalFrictionLoss_acc st' = totalFrictionLoss_acc st + loc_frictionPressureLoss p segs i"
    and "totalPressureDrop_acc st' =
           totalPressureDrop_acc st + (loc_frictionPressureLoss p segs i + loc_minorLoss p segs i)"
    and "cumulativeDepth st' = cumulativeDepth st + loc_L segs i"
    and "frictionLosses st' =
           frictionLosses st @ [(loc_frictionPressureLoss p segs i, loc_flowRegime p segs i)]"
  using assms by (auto simp: loopBody_def Let_def split: if_splits)

lemma march_closed_form:
  assumes "marchTo p segs k = Inr s"
  shows "currentPressure s = injectionPressure p * 1000 + (\<Sum>i<k. loc_netPressureChange p segs i)
    \<and> totalFrictionLoss_acc s = (\<Sum>i<k. loc_frictionPressureLoss p segs i)
    \<and> totalPressureDrop_acc s =
           (\<Sum>i<k. loc_frictionPressureLoss p segs i + loc_minorLoss p segs i)
    \<and> cumulativeDepth s = (\<Sum>i<k. loc_L segs i)
    \<and> frictionLosses s =
           map (\<lambda>i. (loc_frictionPressureLoss p segs i, loc_flowRegime p segs i)) [0..<k]"
  using assms
proof (induction k arbitrary: s)
  case 0
  then show ?case by (auto simp: marchTo_0 initialState_def)
next
  case (Suc k)
  from Suc.prems obtain s0 where a: "marchTo p segs k = Inr s0"
    and b: "loopBody p segs k s0 = Inr s"
    by (rule marchTo_Suc_Inr)
  show ?case using Suc.IH [OF a] loopBody_fields [OF b] by simp
qed

lemma loopBody_results:
  assumes "loopBody p segs i st = Inr st'"
  shows "segmentResults st' =
           (if id_seg (segs ! i) \<noteq> -1 then
              segmentResults st @
                [\<lparr>segmentNumber = i + 1,
                  diameter_res = diameter (segs ! i),
                  length_res = loc_L segs i,
                  depthFrom = cumulativeDepth st,
                  depthTo = cumulativeDepth st + loc_L segs i,
                  velocity = loc_V p segs i,
                  reynoldsNumber = loc_Re p segs i,
                  flowRegime = loc_flowRegime p segs i,
                  frictionFactor = loc_f p segs i,
                  frictionLoss = loc_frictionPressureLoss p segs i / 1000,
                  hydrostaticGain = loc_hydrostaticGain p segs i / 1000,
                  minorLoss = loc_minorLoss p segs i / 1000,
                  netPressureChange = loc_netPressureChange p segs i / 1000,
                  inletPressure = currentPressure st / 1000,
                  outletPressure = (currentPressure st + loc_netPressureChange p segs i) / 1000\<rparr>]
            else segmentResults st)"
  using assms by (auto simp: loopBody_def Let_def split: if_splits)

lemma filter_upt_Suc:
  "filter P [0..<Suc k] = (if P k then filter P [0..<k] @ [k] else filter P [0..<k])"
  by simp

lemma march_results:
  assumes "marchTo p segs k = Inr s"
  shows "map (\<lambda>r. (segmentNumber r, diameter_res r, length_res r, depthFrom r, depthTo r, velocity r))
           (segmentResults s) =
         map (\<lambda>i. (i + 1, diameter (segs ! i), loc_L segs i, (\<Sum>j<i. loc_L segs j),
                    (\<Sum>j<Suc i. loc_L segs j), loc_V p segs i))
           (filter (\<lambda>i. id_seg (segs ! i) \<noteq> -1) [0..<k])"
  using assms
proof (induction k arbitrary: s)
  case 0
  then show ?case by (auto simp: marchTo_0 initialState_def)
next
  case (Suc k)
  from Suc.prems obtain s0 where a: "marchTo p segs k = Inr s0"
    and b: "loopBody p segs k s0 = Inr s"
    by (rule marchTo_Suc_Inr)
  have c: "cumulativeDepth s0 = (\<Sum>j<k. loc_L segs j)"
    using march_closed_form [OF a] by simp
  show ?case using Suc.IH [OF a] loopBody_results [OF b] c by simp
qed


section \<open>The effective segment list, success and the assembled result\<close>

lemma foldl_orZero:
  "foldl (\<lambda>sum seg. sum + orZero (length_seg seg)) a xs = a + sum_list (map length_seg xs)"
  by (induction xs arbitrary: a) (auto simp: orZero_def)

lemma totalSegmentLength_sum: "totalSegmentLength p = sum_list (map length_seg (segments p))"
  by (simp add: totalSegmentLength_def foldl_orZero)

lemma openHoleLength_gt:
  "openHoleLength p > 0.1 \<longleftrightarrow> wellDepth p - sum_list (map length_seg (segments p)) > 0.1"
  by (auto simp: openHoleLength_def totalSegmentLength_sum max_def)

lemma openHoleLength_residual:
  "wellDepth p - sum_list (map length_seg (segments p)) > 0.1 \<Longrightarrow>
   openHoleLength p = wellDepth p - sum_list (map length_seg (segments p))"
  by (auto simp: openHoleLength_def totalSegmentLength_sum max_def)

lemma sum_loc_L_take:
  "k \<le> length segs \<Longrightarrow> (\<Sum>j<k. loc_L segs j) = sum_list (map length_seg (take k segs))"
  by (induction k) (auto simp: take_Suc_conv_app_nth loc_L_def)

lemma sum_loc_L_all: "(\<Sum>j<length segs. loc_L segs j) = sum_list (map length_seg segs)"
  using sum_loc_L_take [of "length segs" segs] by simp

lemma loc_D_pos_iff: "0 < loc_D segs i \<longleftrightarrow> 0 < diameter (segs ! i)"
  by (simp add: loc_D_def)

lemma marchTo_succeeds:
  "k \<le> length segs \<Longrightarrow> \<forall>s \<in> set segs. 0 < diameter s \<Longrightarrow> \<exists>st. marchTo p segs k = Inr st"
proof (induction k)
  case 0
  then show ?case by (simp add: marchTo_0)
next
  case (Suc k)
  then obtain s0 where a: "marchTo p segs k = Inr s0" by auto
  have "0 < loc_D segs k" using Suc.prems by (simp add: loc_D_pos_iff)
  then obtain s1 where "loopBody p segs k s0 = Inr s1"
    using loopBody_succeeds by blast
  with a show ?case by (simp add: marchTo_Suc)
qed

lemma calculatePressureDrop_succeeds:
  assumes "allSegments p = Inr segs" and "\<forall>s \<in> set segs. 0 < diameter s"
  shows "\<exists>r. calculatePressureDrop p = Inr r"
proof -
  obtain st where "march p segs = Inr st"
    using marchTo_succeeds [of "length segs" segs p] assms(2) by (auto simp: march_def)
  with assms(1) show ?thesis by (simp add: calculatePressureDrop_def)
qed

lemma calculatePressureDrop_Inr:
  assumes "calculatePressureDrop p = Inr r"
  obtains segs st where "allSegments p = Inr segs" and "marchTo p segs (length segs) = Inr st"
    and "r = assemble p st"
  using assms by (auto simp: calculatePressureDrop_def march_def split: sum.splits)

lemma allSegments_cases:
  assumes "allSegments p = Inr segs"
  shows "segs = segments p \<or> segs = segments p @ [openHoleSegment p]"
  using assms by (auto simp: allSegments_def split: if_splits)

lemma assemble_fields:
  "segments_out (assemble p st) = segmentResults st"
  "totalFrictionLoss (assemble p st) = totalFrictionLoss_acc st / 1000"
  "totalPressureDrop (assemble p st) = totalPressureDrop_acc st / 1000"
  "bottomPressure (assemble p st) = currentPressure st / 1000"
  "warnings (assemble p st) = (if warnings_acc st = [] then None else Some (warnings_acc st))"
  by (simp_all add: assemble_def)

lemma filter_user_indices:
  assumes "allSegments p = Inr segs" and "\<forall>s \<in> set (segments p). id_seg s \<noteq> -1"
  shows "filter (\<lambda>i. id_seg (segs ! i) \<noteq> -1) [0..<length segs] = [0..<length (segments p)]"
proof -
  have a: "filter (\<lambda>i. id_seg ((segments p @ ys) ! i) \<noteq> -1) [0..<length (segments p)]
      = [0..<length (segments p)]" for ys
    using assms(2) by (auto simp: filter_id_conv nth_append)
  from allSegments_cases [OF assms(1)] show ?thesis
  proof
    assume "segs = segments p"
    with a [of "[]"] show ?thesis by simp
  next
    assume "segs = segments p @ [openHoleSegment p]"
    with a [of "[openHoleSegment p]"] show ?thesis
      by (simp add: openHoleSegment_def)
  qed
qed

lemma filter_indices_bound:
  assumes "allSegments p = Inr segs"
  shows "set (filter (\<lambda>i. id_seg (segs ! i) \<noteq> -1) [0..<length segs]) \<subseteq> {..<length (segments p)}"
  using allSegments_cases [OF assms]
  by (auto simp: openHoleSegment_def nth_append less_Suc_eq)


section \<open>The open-hole segment\<close>

text \<open>
  C4.  One synthetic open-hole segment (id \<open>-1\<close>, the given open-hole diameter, the
  residual length, roughness 0.5) is appended exactly when the well depth exceeds the
  sum of the input segment lengths by more than 0.1; otherwise the effective list is the
  input list.  When it is required and the open-hole diameter is not positive, the
  calculation throws.  On success the totals and the bottomhole pressure are sums over
  every effective segment, the synthetic one included, while no segment result carries
  a number beyond the input segments.
\<close>

theorem openHole_segment:
  "(wellDepth p - sum_list (map length_seg (segments p)) > 0.1 \<and> openHoleDiameter p > 0 \<longrightarrow>
      allSegments p =
        Inr (segments p @
          [\<lparr>id_seg = -1, diameter = openHoleDiameter p,
            length_seg = wellDepth p - sum_list (map length_seg (segments p)),
            roughness = 0.5\<rparr>])) \<and>
   (\<not> wellDepth p - sum_list (map length_seg (segments p)) > 0.1 \<longrightarrow>
      allSegments p = Inr (segments p)) \<and>
   (wellDepth p - sum_list (map length_seg (segments p)) > 0.1 \<and> openHoleDiameter p \<le> 0 \<longrightarrow>
      calculatePressureDrop p = Inl (Error ''Open hole diameter must be a positive value.'')) \<and>
   (\<forall>segs r. allSegments p = Inr segs \<and> calculatePressureDrop p = Inr r \<longrightarrow>
      totalFrictionLoss r * 1000 = (\<Sum>i<length segs. loc_frictionPressureLoss p segs i) \<and>
      totalPressureDrop r * 1000 =
        (\<Sum>i<length segs. loc_frictionPressureLoss p segs i + loc_minorLoss p segs i) \<and>
      bottomPressure r * 1000 =
        injectionPressure p * 1000 + (\<Sum>i<length segs. loc_netPressureChange p segs i) \<and>
      (\<forall>sr \<in> set (segments_out r). segmentNumber sr \<le> length (segments p)))"
proof (intro conjI impI allI)
  assume "wellDepth p - sum_list (map length_seg (segments p)) > 0.1 \<and> openHoleDiameter p > 0"
  then show "allSegments p =
        Inr (segments p @
          [\<lparr>id_seg = -1, diameter = openHoleDiameter p,
            length_seg = wellDepth p - sum_list (map length_seg (segments p)),
            roughness = 0.5\<rparr>])"
    using openHoleLength_gt [of p] openHoleLength_residual [of p]
    by (simp add: allSegments_def openHoleSegment_def DEFAULT_OPEN_HOLE_ROUGHNESS_def)
next
  assume "\<not> wellDepth p - sum_list (map length_seg (segments p)) > 0.1"
  then show "allSegments p = Inr (segments p)"
    using openHoleLength_gt [of p] by (simp add: allSegments_def)
next
  assume "wellDepth p - sum_list (map length_seg (segments p)) > 0.1 \<and> openHoleDiameter p \<le> 0"
  then show "calculatePressureDrop p = Inl (Error ''Open hole diameter must be a positive value.'')"
    using openHoleLength_gt [of p] by (simp add: calculatePressureDrop_def allSegments_def)
next
  fix segs r
  assume h: "allSegments p = Inr segs \<and> calculatePressureDrop p = Inr r"
  then obtain st where st: "marchTo p segs (length segs) = Inr st" and r: "r = assemble p st"
    by (auto elim: calculatePressureDrop_Inr)
  note cf = march_closed_form [OF st]
  show "totalFrictionLoss r * 1000 = (\<Sum>i<length segs. loc_frictionPressureLoss p segs i)"
    using cf by (simp add: r assemble_fields)
  show "totalPressureDrop r * 1000 =
        (\<Sum>i<length segs. loc_frictionPressureLoss p segs i + loc_minorLoss p segs i)"
    using cf by (simp add: r assemble_fields)
  show "bottomPressure r * 1000 =
        injectionPressure p * 1000 + (\<Sum>i<length segs. loc_netPressureChange p segs i)"
    using cf by (simp add: r assemble_fields)
  show "\<forall>sr \<in> set (segments_out r). segmentNumber sr \<le> length (segments p)"
  proof
    fix sr
    assume "sr \<in> set (segments_out r)"
    then have "segmentNumber sr \<in> set (map segmentNumber (segmentResults st))"
      by (simp add: r assemble_fields)
    also have "map segmentNumber (segmentResults st) =
        map (\<lambda>i. i + 1) (filter (\<lambda>i. id_seg (segs ! i) \<noteq> -1) [0..<length segs])"
      using arg_cong [OF march_results [OF st], of "map fst"] by (simp add: comp_def)
    finally obtain i where "segmentNumber sr = i + 1"
      and "i \<in> set (filter (\<lambda>i. id_seg (segs ! i) \<noteq> -1) [0..<length segs])"
      by auto
    moreover have "allSegments p = Inr segs" using h by simp
    ultimately show "segmentNumber sr \<le> length (segments p)"
      using filter_indices_bound [of p segs] by auto
  qed
qed


theorem openHole_segment_witness:
  "allSegments (basicParams\<lparr>wellDepth := 200\<rparr>) =
     Inr (segments basicParams @
       [\<lparr>id_seg = -1, diameter = 150, length_seg = 100, roughness = 0.5\<rparr>]) \<and>
   allSegments basicParams = Inr (segments basicParams) \<and>
   calculatePressureDrop (basicParams\<lparr>wellDepth := 200, openHoleDiameter := 0\<rparr>) =
     Inl (Error ''Open hole diameter must be a positive value.'') \<and>
   (\<exists>segs r. allSegments (basicParams\<lparr>wellDepth := 200\<rparr>) = Inr segs \<and> length segs = 2 \<and>
      calculatePressureDrop (basicParams\<lparr>wellDepth := 200\<rparr>) = Inr r \<and>
      totalFrictionLoss r * 1000 =
        (\<Sum>i<2. loc_frictionPressureLoss (basicParams\<lparr>wellDepth := 200\<rparr>) segs i) \<and>
      list_all (\<lambda>sr. segmentNumber sr \<le> 1) (segments_out r))"
proof -
  let ?p = "basicParams\<lparr>wellDepth := 200\<rparr>"
  let ?segs = "segments basicParams @
       [\<lparr>id_seg = -1, diameter = 150, length_seg = 100, roughness = 0.5\<rparr>]"
  have a: "allSegments ?p = Inr ?segs"
    using openHole_segment [of ?p] by (simp add: basicParams_def)
  have b: "allSegments basicParams = Inr (segments basicParams)"
    using openHole_segment [of basicParams] by (simp add: basicParams_def)
  have c: "calculatePressureDrop (basicParams\<lparr>wellDepth := 200, openHoleDiameter := 0\<rparr>) =
     Inl (Error ''Open hole diameter must be a positive value.'')"
    using openHole_segment [of "basicParams\<lparr>wellDepth := 200, openHoleDiameter := 0\<rparr>"]
    by (simp add: basicParams_def)
  have "\<forall>s \<in> set ?segs. 0 < diameter s"
    by (simp add: basicParams_def)
  then obtain r where r: "calculatePressureDrop ?p = Inr r"
    using calculatePressureDrop_succeeds [OF a] by blast
  have len: "length ?segs = 2" and seglen: "length (segments ?p) = 1"
    by (simp_all add: basicParams_def)
  from openHole_segment [of ?p] a r
  have "totalFrictionLoss r * 1000 = (\<Sum>i<length ?segs. loc_frictionPressureLoss ?p ?segs i) \<and>
      (\<forall>sr \<in> set (segments_out r). segmentNumber sr \<le> length (segments ?p))"
    by blast
  then have d: "totalFrictionLoss r * 1000 = (\<Sum>i<2. loc_frictionPressureLoss ?p ?segs i) \<and>
      list_all (\<lambda>sr. segmentNumber sr \<le> 1) (segments_out r)"
    unfolding len seglen list_all_iff .
  from a b c r d len show ?thesis by blast
qed


section \<open>The per-segment result list\<close>

lemma results_projection:
  assumes "allSegments p = Inr segs" and "calculatePressureDrop p = Inr r"
  shows "map (\<lambda>r. (segmentNumber r, diameter_res r, length_res r, depthFrom r, depthTo r, velocity r))
           (segments_out r) =
         map (\<lambda>i. (i + 1, diameter (segs ! i), loc_L segs i, (\<Sum>j<i. loc_L segs j),
                    (\<Sum>j<Suc i. loc_L segs j), loc_V p segs i))
           (filter (\<lambda>i. id_seg (segs ! i) \<noteq> -1) [0..<length segs])"
proof -
  from assms obtain st where st: "marchTo p segs (length segs) = Inr st" and r: "r = assemble p st"
    by (auto elim: calculatePressureDrop_Inr)
  show ?thesis using march_results [OF st] by (simp add: r assemble_fields)
qed

lemma user_segment_nth:
  assumes "allSegments p = Inr segs" and "i < length (segments p)"
  shows "segs ! i = segments p ! i"
  using allSegments_cases [OF assms(1)] assms(2) by (auto simp: nth_append)

lemma user_results:
  assumes "calculatePressureDrop p = Inr r" and "\<forall>s \<in> set (segments p). id_seg s \<noteq> -1"
  shows "length (segments_out r) = length (segments p)"
    and "i < length (segments p) \<Longrightarrow>
         segmentNumber (segments_out r ! i) = i + 1 \<and>
         diameter_res (segments_out r ! i) = diameter (segments p ! i) \<and>
         length_res (segments_out r ! i) = length_seg (segments p ! i) \<and>
         depthFrom (segments_out r ! i) = sum_list (map length_seg (take i (segments p))) \<and>
         depthTo (segments_out r ! i) = sum_list (map length_seg (take (Suc i) (segments p)))"
proof -
  from assms(1) obtain segs where segs: "allSegments p = Inr segs"
    by (auto elim: calculatePressureDrop_Inr)
  let ?proj = "\<lambda>r. (segmentNumber r, diameter_res r, length_res r, depthFrom r, depthTo r, velocity r)"
  let ?mk = "\<lambda>i. (i + 1, diameter (segs ! i), loc_L segs i, (\<Sum>j<i. loc_L segs j),
                    (\<Sum>j<Suc i. loc_L segs j), loc_V p segs i)"
  have eq: "map ?proj (segments_out r) = map ?mk [0..<length (segments p)]"
    using results_projection [OF segs assms(1)] filter_user_indices [OF segs assms(2)] by simp
  from arg_cong [OF eq, of length] show len: "length (segments_out r) = length (segments p)"
    by simp
  assume i: "i < length (segments p)"
  have le: "length (segments p) \<le> length segs"
    using allSegments_cases [OF segs] by auto
  have tk: "take k segs = take k (segments p)" if "k \<le> length (segments p)" for k
    using allSegments_cases [OF segs] that by auto
  from arg_cong [OF eq, of "\<lambda>xs. xs ! i"] i len
  have "?proj (segments_out r ! i) = ?mk i" by simp
  moreover have "(\<Sum>j<i. loc_L segs j) = sum_list (map length_seg (take i (segments p)))"
    using sum_loc_L_take [of i segs] tk [of i] i le by simp
  moreover have "(\<Sum>j<Suc i. loc_L segs j) = sum_list (map length_seg (take (Suc i) (segments p)))"
    using sum_loc_L_take [of "Suc i" segs] tk [of "Suc i"] i le by simp
  ultimately show "segmentNumber (segments_out r ! i) = i + 1 \<and>
         diameter_res (segments_out r ! i) = diameter (segments p ! i) \<and>
         length_res (segments_out r ! i) = length_seg (segments p ! i) \<and>
         depthFrom (segments_out r ! i) = sum_list (map length_seg (take i (segments p))) \<and>
         depthTo (segments_out r ! i) = sum_list (map length_seg (take (Suc i) (segments p)))"
    using user_segment_nth [OF segs i] by (simp add: loc_L_def)
qed


lemma twoSegments_succeeds:
  "\<exists>r. calculatePressureDrop (basicParams\<lparr>segments := twoSegments\<rparr>) = Inr r"
proof -
  have "allSegments (basicParams\<lparr>segments := twoSegments\<rparr>) = Inr twoSegments"
    by (simp add: allSegments_def openHoleLength_def totalSegmentLength_sum basicParams_def
        twoSegments_def)
  moreover have "\<forall>s \<in> set twoSegments. 0 < diameter s"
    by (simp add: twoSegments_def)
  ultimately show ?thesis by (rule calculatePressureDrop_succeeds)
qed

text \<open>
  C5 (as amended).  When the calculation succeeds and no input segment carries the
  reserved id \<open>-1\<close>, the result has one SegmentResult per input segment, in the input
  order: the \<open>i\<close>-th result has segment number \<open>i + 1\<close> and the diameter and length of
  the \<open>i\<close>-th input segment.
\<close>

theorem segment_results_match_input:
  assumes "calculatePressureDrop p = Inr r" and "\<forall>s \<in> set (segments p). id_seg s \<noteq> -1"
  shows "length (segments_out r) = length (segments p) \<and>
    (\<forall>i<length (segments p).
       segmentNumber (segments_out r ! i) = i + 1 \<and>
       diameter_res (segments_out r ! i) = diameter (segments p ! i) \<and>
       length_res (segments_out r ! i) = length_seg (segments p ! i))"
  using user_results [OF assms] by simp

theorem segment_results_match_input_witness:
  "\<exists>r. calculatePressureDrop (basicParams\<lparr>segments := twoSegments\<rparr>) = Inr r \<and>
     length (segments_out r) = 2 \<and>
     map segmentNumber (segments_out r) = [1, 2] \<and>
     map diameter_res (segments_out r) = [100, 80] \<and>
     map length_res (segments_out r) = [50, 50]"
proof -
  let ?p = "basicParams\<lparr>segments := twoSegments\<rparr>"
  obtain r where r: "calculatePressureDrop ?p = Inr r"
    using twoSegments_succeeds by blast
  have ids: "\<forall>s \<in> set (segments ?p). id_seg s \<noteq> -1"
    by (simp add: twoSegments_def)
  have len: "length (segments ?p) = 2"
    by (simp add: twoSegments_def)
  note m = segment_results_match_input [OF r ids, unfolded len]
  then have l2: "length (segments_out r) = 2" by simp
  then obtain a b where ab: "segments_out r = [a, b]"
    by (auto simp: length_Suc_conv numeral_2_eq_2)
  from m have "segmentNumber (segments_out r ! 0) = 1 \<and> segmentNumber (segments_out r ! 1) = 2 \<and>
       diameter_res (segments_out r ! 0) = 100 \<and> diameter_res (segments_out r ! 1) = 80 \<and>
       length_res (segments_out r ! 0) = 50 \<and> length_res (segments_out r ! 1) = 50"
    by (simp add: twoSegments_def)
  with ab l2 r show ?thesis by simp
qed

text \<open>
  C5 as stated (for all user-supplied ids) fails: an input segment with id \<open>-1\<close> is
  taken for the open-hole segment and left out of the result list.
\<close>

theorem reserved_id_drops_segment:
  "map_sum id (\<lambda>r. length (segments_out r))
     (calculatePressureDrop
        (basicParams\<lparr>segments :=
           [\<lparr>id_seg = -1, diameter = 100, length_seg = 100, roughness = 0.046\<rparr>]\<rparr>)) = Inr 0 \<and>
   length (segments
        (basicParams\<lparr>segments :=
           [\<lparr>id_seg = -1, diameter = 100, length_seg = 100, roughness = 0.046\<rparr>]\<rparr>)) = 1"
proof -
  let ?segs = "[\<lparr>id_seg = -1, diameter = 100, length_seg = 100, roughness = 0.046\<rparr>]"
  let ?p = "basicParams\<lparr>segments := ?segs\<rparr>"
  have a: "allSegments ?p = Inr ?segs"
    by (simp add: allSegments_def openHoleLength_def totalSegmentLength_sum basicParams_def)
  then obtain r where r: "calculatePressureDrop ?p = Inr r"
    using calculatePressureDrop_succeeds [OF a] by auto
  from results_projection [OF a r] have "segments_out r = []" by simp
  with r show ?thesis by simp
qed


text \<open>
  C6 (as amended).  When the calculation succeeds and no input segment carries the
  reserved id \<open>-1\<close>: the first result's depthFrom is 0, each result's depthTo is the
  next result's depthFrom, and the last result's depthTo is the sum of the input segment
  lengths, which is at most the well depth whenever the segments are no longer than the
  well is deep.
\<close>

theorem depth_bookkeeping:
  assumes "calculatePressureDrop p = Inr r" and "\<forall>s \<in> set (segments p). id_seg s \<noteq> -1"
  shows "(segments_out r \<noteq> [] \<longrightarrow> depthFrom (segments_out r ! 0) = 0) \<and>
    (\<forall>i. Suc i < length (segments_out r) \<longrightarrow>
       depthTo (segments_out r ! i) = depthFrom (segments_out r ! Suc i)) \<and>
    (segments_out r \<noteq> [] \<longrightarrow>
       depthTo (last (segments_out r)) = sum_list (map length_seg (segments p))) \<and>
    (segments_out r \<noteq> [] \<and> sum_list (map length_seg (segments p)) \<le> wellDepth p \<longrightarrow>
       depthTo (last (segments_out r)) \<le> wellDepth p)"
proof -
  note len = user_results(1) [OF assms]
  note nth = user_results(2) [OF assms]
  have first: "depthFrom (segments_out r ! 0) = 0" if "segments_out r \<noteq> []"
  proof -
    from that len have "0 < length (segments p)" by (cases "segments p") auto
    from nth [OF this] show ?thesis by simp
  qed
  have adj: "depthTo (segments_out r ! i) = depthFrom (segments_out r ! Suc i)"
    if "Suc i < length (segments_out r)" for i
    using nth [of i] nth [of "Suc i"] that len by simp
  have lst: "depthTo (last (segments_out r)) = sum_list (map length_seg (segments p))"
    if "segments_out r \<noteq> []"
  proof -
    let ?n = "length (segments p)"
    from that len have n: "?n - 1 < ?n" by (cases "segments p") auto
    then have "Suc (?n - 1) = ?n" by simp
    moreover have "last (segments_out r) = segments_out r ! (?n - 1)"
      using that len by (simp add: last_conv_nth)
    ultimately show ?thesis using nth [OF n] by simp
  qed
  from first adj lst show ?thesis by auto
qed

theorem depth_bookkeeping_witness:
  "\<exists>r. calculatePressureDrop (basicParams\<lparr>segments := twoSegments\<rparr>) = Inr r \<and>
     map depthFrom (segments_out r) = [0, 50] \<and>
     map depthTo (segments_out r) = [50, 100] \<and>
     depthTo (last (segments_out r)) \<le> wellDepth (basicParams\<lparr>segments := twoSegments\<rparr>)"
proof -
  let ?p = "basicParams\<lparr>segments := twoSegments\<rparr>"
  obtain r where r: "calculatePressureDrop ?p = Inr r"
    using twoSegments_succeeds by blast
  have ids: "\<forall>s \<in> set (segments ?p). id_seg s \<noteq> -1"
    by (simp add: twoSegments_def)
  have l2: "length (segments_out r) = 2"
    using user_results(1) [OF r ids] by (simp add: twoSegments_def)
  then obtain a b where ab: "segments_out r = [a, b]"
    by (auto simp: length_Suc_conv numeral_2_eq_2)
  have sm: "sum_list (map length_seg (segments ?p)) = 100" and wd: "wellDepth ?p = 100"
    by (simp_all add: twoSegments_def basicParams_def)
  from depth_bookkeeping [OF r ids] ab
  have "depthFrom a = 0 \<and> depthTo a = depthFrom b \<and> depthTo b = 100 \<and> depthTo b \<le> 100"
    unfolding sm wd by auto
  moreover have "depthTo a = 50"
    using user_results(2) [OF r ids, of 0] ab by (simp add: twoSegments_def)
  ultimately show ?thesis using r ab wd by auto
qed

text \<open>
  C6 as stated fails: the engine compares neither the ids nor the total segment length
  with anything.  With a first input segment of id \<open>-1\<close> and 200 m of segments in a well
  of depth 50 m, the only reported segment runs from 100 m to 200 m.
\<close>

theorem depth_bookkeeping_counterexample:
  "map_sum id (\<lambda>r. (map depthFrom (segments_out r), map depthTo (segments_out r)))
     (calculatePressureDrop
        (basicParams\<lparr>segments :=
           [\<lparr>id_seg = -1, diameter = 100, length_seg = 100, roughness = 0.046\<rparr>,
            \<lparr>id_seg = 1, diameter = 100, length_seg = 100, roughness = 0.046\<rparr>],
           wellDepth := 50\<rparr>)) = Inr ([100], [200])"
proof -
  let ?segs = "[\<lparr>id_seg = -1, diameter = 100, length_seg = 100, roughness = 0.046\<rparr>,
            \<lparr>id_seg = 1, diameter = 100, length_seg = 100, roughness = 0.046\<rparr>]"
  let ?p = "basicParams\<lparr>segments := ?segs, wellDepth := 50\<rparr>"
  have a: "allSegments ?p = Inr ?segs"
    by (simp add: allSegments_def openHoleLength_def totalSegmentLength_sum basicParams_def)
  then obtain r where r: "calculatePressureDrop ?p = Inr r"
    using calculatePressureDrop_succeeds [OF a] by auto
  have up: "[0..<2] = [0, 1]" by (simp add: upt_rec)
  from results_projection [OF a r]
  have "map (\<lambda>r. (segmentNumber r, diameter_res r, length_res r, depthFrom r, depthTo r, velocity r))
           (segments_out r) =
        [(2, 100, 100, 100, 200, loc_V ?p ?segs 1)]"
    by (simp add: up loc_L_def)
  then have "map depthFrom (segments_out r) = [100] \<and> map depthTo (segments_out r) = [200]"
    by (auto simp: map_eq_Cons_conv)
  with r show ?thesis by simp
qed


section \<open>Zero flow\<close>

lemma zero_flow_locals:
  assumes "flowRate p = 0"
  shows "loc_V p segs i = 0"
    and "loc_frictionPressureLoss p segs i = 0"
    and "loc_minorLoss p segs i = 0"
    and "loc_netPressureChange p segs i = fluidDensity p * GRAVITY * loc_L segs i"
proof -
  have q: "loc_Q p = 0" using assms by (simp add: loc_Q_def)
  then show v: "loc_V p segs i = 0" by (simp add: loc_V_def)
  then show f: "loc_frictionPressureLoss p segs i = 0"
    by (simp add: loc_frictionPressureLoss_def loc_hf_def)
  from q v show m: "loc_minorLoss p segs i = 0"
    by (simp add: loc_minorLoss_def Let_def)
  from f m show "loc_netPressureChange p segs i = fluidDensity p * GRAVITY * loc_L segs i"
    by (simp add: loc_netPressureChange_def loc_hydrostaticGain_def)
qed

lemma sum_hydrostatic_take:
  "k \<le> length segs \<Longrightarrow>
   (\<Sum>i<k. c * loc_L segs i) = (\<Sum>s\<leftarrow>take k segs. c * length_seg s)"
  by (induction k) (auto simp: take_Suc_conv_app_nth loc_L_def)

lemma zero_flow_pressure:
  assumes "flowRate p = 0" and "marchTo p segs k = Inr s" and "k \<le> length segs"
  shows "currentPressure s =
    injectionPressure p * 1000 + (\<Sum>s\<leftarrow>take k segs. fluidDensity p * GRAVITY * length_seg s)"
  using march_closed_form [OF assms(2)] sum_hydrostatic_take [OF assms(3), of "fluidDensity p * GRAVITY"]
  by (simp add: zero_flow_locals [OF assms(1)])



section \<open>The cavitation warning\<close>

lemma cavitationWarning_prefix: "prefix cavitationPrefix (cavitationWarning n)"
  by (simp add: cavitationPrefix_def cavitationWarning_def)

lemma loopBody_warnings:
  assumes "loopBody p segs i st = Inr st'"
  shows "warnings_acc st' =
    (if currentPressure st' < 0 \<and> \<not> list_ex (prefix cavitationPrefix) (warnings_acc st)
     then warnings_acc st @ [cavitationWarning (i + 1)] else warnings_acc st)"
  using assms by (auto simp: loopBody_def Let_def split: if_splits)

lemma march_warnings:
  assumes "marchTo p segs k = Inr s"
  shows "(warnings_acc s = [] \<and>
          (\<forall>j s'. 1 \<le> j \<and> j \<le> k \<and> marchTo p segs j = Inr s' \<longrightarrow> 0 \<le> currentPressure s')) \<or>
         (\<exists>m s'. 1 \<le> m \<and> m \<le> k \<and> warnings_acc s = [cavitationWarning m] \<and>
            marchTo p segs m = Inr s' \<and> currentPressure s' < 0 \<and>
            (\<forall>j s''. 1 \<le> j \<and> j < m \<and> marchTo p segs j = Inr s'' \<longrightarrow> 0 \<le> currentPressure s''))"
  using assms
proof (induction k arbitrary: s)
  case 0
  then show ?case by (auto simp: marchTo_0 initialState_def)
next
  case (Suc k)
  from Suc.prems obtain s0 where a: "marchTo p segs k = Inr s0"
    and b: "loopBody p segs k s0 = Inr s"
    by (rule marchTo_Suc_Inr)
  note w = loopBody_warnings [OF b]
  from Suc.IH [OF a] show ?case
  proof (elim disjE conjE exE)
    assume e: "warnings_acc s0 = []"
      and nn: "\<forall>j s'. 1 \<le> j \<and> j \<le> k \<and> marchTo p segs j = Inr s' \<longrightarrow> 0 \<le> currentPressure s'"
    show ?thesis
    proof (cases "currentPressure s < 0")
      case True
      with w e have "warnings_acc s = [cavitationWarning (Suc k)]" by simp
      moreover have "\<forall>j s''. 1 \<le> j \<and> j < Suc k \<and> marchTo p segs j = Inr s'' \<longrightarrow> 0 \<le> currentPressure s''"
        using nn by (simp add: less_Suc_eq_le)
      ultimately show ?thesis using True Suc.prems by (intro disjI2 exI [of _ "Suc k"] exI [of _ s]) simp
    next
      case False
      with w e have "warnings_acc s = []" by simp
      moreover have "\<forall>j s'. 1 \<le> j \<and> j \<le> Suc k \<and> marchTo p segs j = Inr s' \<longrightarrow> 0 \<le> currentPressure s'"
      proof (intro allI impI)
        fix j s'
        assume j: "1 \<le> j \<and> j \<le> Suc k \<and> marchTo p segs j = Inr s'"
        show "0 \<le> currentPressure s'"
        proof (cases "j = Suc k")
          case True
          with j Suc.prems False show ?thesis by simp
        next
          case False
          with j nn show ?thesis by (simp add: le_Suc_eq)
        qed
      qed
      ultimately show ?thesis by blast
    qed
  next
    fix m s'
    assume m: "1 \<le> m" "m \<le> k" "warnings_acc s0 = [cavitationWarning m]"
      "marchTo p segs m = Inr s'" "currentPressure s' < 0"
      "\<forall>j s''. 1 \<le> j \<and> j < m \<and> marchTo p segs j = Inr s'' \<longrightarrow> 0 \<le> currentPressure s''"
    from w m(3) have "warnings_acc s = [cavitationWarning m]"
      by (simp add: cavitationWarning_prefix)
    with m show ?thesis by (intro disjI2 exI [of _ m] exI [of _ s']) simp
  qed
qed









section \<open>Zero flow: the result\<close>

lemma assemble_maxFlowRate:
  "maxFlowRate (assemble p st) =
     (if availablePressure p \<le> 0 then Finite 0
      else if totalPressureDrop_acc st \<le> 0 \<or> flowRate p = 0 then Infinity
      else Finite (flowRate p *
             (availablePressure p / totalPressureDrop_acc st)
               powr (1 / flowExponent (frictionLosses st))))"
  by (simp add: assemble_def loc_Q_def SECONDS_PER_DAY_def)

lemma availablePressure_eq:
  "availablePressure p =
     injectionPressure p * 1000 + fluidDensity p * 9.81 * wellDepth p - bottomholePressure p * 1000"
  by (simp add: availablePressure_def totalHydrostatic_def GRAVITY_def)

lemma zero_flow_no_warning:
  assumes "flowRate p = 0" and "marchTo p segs (length segs) = Inr st"
    and "0 \<le> injectionPressure p" and "0 \<le> fluidDensity p" and "\<forall>s \<in> set segs. 0 \<le> length_seg s"
  shows "warnings_acc st = []"
proof -
  have "0 \<le> currentPressure s'" if "j \<le> length segs" and "marchTo p segs j = Inr s'" for j s'
  proof -
    have "0 \<le> (\<Sum>s\<leftarrow>take j segs. fluidDensity p * GRAVITY * length_seg s)"
    proof (rule sum_list_nonneg)
      fix x assume "x \<in> set (map (\<lambda>s. fluidDensity p * GRAVITY * length_seg s) (take j segs))"
      then obtain s where "s \<in> set (take j segs)" and x: "x = fluidDensity p * GRAVITY * length_seg s"
        by auto
      then have "s \<in> set segs" by (auto dest: in_set_takeD)
      with assms(5) have "0 \<le> length_seg s" by blast
      moreover have "0 \<le> fluidDensity p * GRAVITY"
        using assms(4) by (simp add: GRAVITY_def)
      ultimately show "0 \<le> x" unfolding x by (rule mult_nonneg_nonneg [rotated])
    qed
    with zero_flow_pressure [OF assms(1) that(2) that(1)] assms(3) show ?thesis by simp
  qed
  with march_warnings [OF assms(2)] show ?thesis by (fastforce simp: not_le [symmetric])
qed

lemma zero_flow_facts:
  assumes "flowRate p = 0" and "allSegments p = Inr segs" and "calculatePressureDrop p = Inr r"
  shows "map velocity (segments_out r) =
           map (\<lambda>i. 0) (filter (\<lambda>i. id_seg (segs ! i) \<noteq> -1) [0..<length segs])"
    and "totalFrictionLoss r = 0"
    and "bottomPressure r =
      (injectionPressure p * 1000 + (\<Sum>s\<leftarrow>segs. fluidDensity p * 9.81 * length_seg s)) / 1000"
    and "0 \<le> injectionPressure p \<Longrightarrow> 0 \<le> fluidDensity p \<Longrightarrow>
         \<forall>s \<in> set segs. 0 \<le> length_seg s \<Longrightarrow> warnings r = None"
proof -
  from assms(2,3) obtain st where st: "marchTo p segs (length segs) = Inr st"
    and r: "r = assemble p st"
    by (auto elim: calculatePressureDrop_Inr)
  note z = zero_flow_locals [OF assms(1)]
  show "map velocity (segments_out r) =
      map (\<lambda>i. 0) (filter (\<lambda>i. id_seg (segs ! i) \<noteq> -1) [0..<length segs])"
    using arg_cong [OF results_projection [OF assms(2,3)], of "map (\<lambda>t. snd (snd (snd (snd (snd t)))))"]
    by (simp add: comp_def z)
  show "totalFrictionLoss r = 0"
    using march_closed_form [OF st] by (simp add: r assemble_fields z)
  show "bottomPressure r =
      (injectionPressure p * 1000 + (\<Sum>s\<leftarrow>segs. fluidDensity p * 9.81 * length_seg s)) / 1000"
    using zero_flow_pressure [OF assms(1) st] by (simp add: r assemble_fields GRAVITY_def)
  show "warnings r = None"
    if "0 \<le> injectionPressure p" "0 \<le> fluidDensity p" "\<forall>s \<in> set segs. 0 \<le> length_seg s"
    using zero_flow_no_warning [OF assms(1) st that] by (simp add: r assemble_fields)
qed

text \<open>
  C3.  The claim says that a flow rate of 0 gives velocities 0, a total friction loss of
  0, the bottomhole pressure of the injection pressure plus the hydrostatic column, no
  cavitation warning and a maximum flow rate of \<open>Infinity\<close>; the service's test "should
  handle zero flow rate" expects the same.  At the input of that test the code returns
  all of it but the last: the available pressure \<open>5000000 + 9810000 - 15000000\<close> is not
  positive, the code tests that before the zero flow rate, and the maximum flow rate is 0.
\<close>

theorem zero_flow_test_input:
  "map_sum id
     (\<lambda>r. (map velocity (segments_out r), totalFrictionLoss r, bottomPressure r, warnings r,
           maxFlowRate r))
     (calculatePressureDrop zeroFlowParams) =
   Inr ([0], 0, 14810, None, Finite 0)"
proof -
  let ?segs = "segments zeroFlowParams"
  have a: "allSegments zeroFlowParams = Inr ?segs"
    by (simp add: allSegments_def openHoleLength_def totalSegmentLength_sum zeroFlowParams_def)
  have "\<forall>s \<in> set ?segs. 0 < diameter s"
    by (simp add: zeroFlowParams_def)
  then obtain r where r: "calculatePressureDrop zeroFlowParams = Inr r"
    using calculatePressureDrop_succeeds [OF a] by blast
  then obtain st where ra: "r = assemble zeroFlowParams st"
    by (auto elim: calculatePressureDrop_Inr)
  have q: "flowRate zeroFlowParams = 0" by (simp add: zeroFlowParams_def)
  note z = zero_flow_facts [OF q a r]
  have v: "map velocity (segments_out r) = [0]"
    using z(1) by (simp add: zeroFlowParams_def)
  have b: "bottomPressure r = 14810"
    using z(3) by (simp add: zeroFlowParams_def)
  have w: "warnings r = None"
    using z(4) by (simp add: zeroFlowParams_def)
  have "availablePressure zeroFlowParams \<le> 0"
    by (simp add: availablePressure_eq zeroFlowParams_def)
  then have m: "maxFlowRate r = Finite 0"
    by (simp add: ra assemble_maxFlowRate)
  from r v z(2) b w m show ?thesis by simp
qed

section \<open>The heavy-oil operating point\<close>

lemma oil_allSegments: "allSegments (oilParams rough k) = Inr (segments (oilParams rough k))"
  by (simp add: allSegments_def openHoleLength_def totalSegmentLength_sum oilParams_def)

lemma oil_locals:
  "loc_V (oilParams rough k) (segments (oilParams rough k)) 0 = k"
  "loc_Re (oilParams rough k) (segments (oilParams rough k)) 0 = 1000 * k"
  "loc_relativeRoughness (segments (oilParams rough k)) 0 = rough / 1000"
  "loc_minorLoss (oilParams rough k) (segments (oilParams rough k)) 0 = 250 * k\<^sup>2"
  "loc_frictionPressureLoss (oilParams rough k) (segments (oilParams rough k)) 0 =
     500 * calculateFrictionFactor (1000 * k) (rough / 1000) * k\<^sup>2"
proof -
  let ?p = "oilParams rough k" and ?s = "segments (oilParams rough k)"
  have D: "loc_D ?s 0 = 1" by (simp add: loc_D_def oilParams_def)
  have A: "loc_A ?s 0 = pi / 4" by (simp add: loc_A_def D PI_def power2_eq_square)
  have Q: "loc_Q ?p = k * pi / 4" by (simp add: loc_Q_def oilParams_def SECONDS_PER_DAY_def)
  show V: "loc_V ?p ?s 0 = k" by (simp add: loc_V_def A Q)
  show R: "loc_Re ?p ?s 0 = 1000 * k"
    by (simp add: loc_Re_def calculateReynolds_def V D) (simp add: oilParams_def)
  show rr: "loc_relativeRoughness ?s 0 = rough / 1000"
    by (simp add: loc_relativeRoughness_def D) (simp add: oilParams_def)
  show "loc_minorLoss ?p ?s 0 = 250 * k\<^sup>2"
    by (simp add: loc_minorLoss_def Let_def V ENTRY_LOSS_COEFFICIENT_def) (simp add: oilParams_def)
  have L: "loc_L ?s 0 = 1" by (simp add: loc_L_def oilParams_def)
  have f0: "calculateFrictionFactor 0 (rough / 1000) = 0"
    by (simp add: calculateFrictionFactor_def)
  show "loc_frictionPressureLoss ?p ?s 0 =
     500 * calculateFrictionFactor (1000 * k) (rough / 1000) * k\<^sup>2"
    by (simp add: loc_frictionPressureLoss_def loc_hf_def loc_f_def V R rr D L GRAVITY_def f0)
      (simp add: oilParams_def)
qed


section \<open>The maximum flow rate\<close>

lemma foldl_first_max:
  fixes ys :: "(real \<times> 'a) list"
  assumes "i < length ys" and "\<forall>j<length ys. fst (ys ! j) \<le> fst (ys ! i)"
    and "\<forall>j<i. fst (ys ! j) < fst (ys ! i)"
  shows "\<exists>k<length (ys @ zs).
           foldl (\<lambda>mx current. if fst current > fst mx then current else mx) (ys ! i) zs = (ys @ zs) ! k \<and>
           (\<forall>j<length (ys @ zs). fst ((ys @ zs) ! j) \<le> fst ((ys @ zs) ! k)) \<and>
           (\<forall>j<k. fst ((ys @ zs) ! j) < fst ((ys @ zs) ! k))"
  using assms
proof (induction zs arbitrary: ys i)
  case Nil
  then show ?case by auto
next
  case (Cons z zs)
  let ?ys = "ys @ [z]"
  show ?case
  proof (cases "fst z > fst (ys ! i)")
    case True
    have a: "length ys < length ?ys" by simp
    have b: "\<forall>j<length ?ys. fst (?ys ! j) \<le> fst (?ys ! length ys)"
      using Cons.prems True by (fastforce simp: nth_append less_Suc_eq)
    have c: "\<forall>j<length ys. fst (?ys ! j) < fst (?ys ! length ys)"
      using Cons.prems True by (fastforce simp: nth_append)
    from Cons.IH [OF a b c] True show ?thesis by simp
  next
    case False
    have a: "i < length ?ys" using Cons.prems by simp
    have b: "\<forall>j<length ?ys. fst (?ys ! j) \<le> fst (?ys ! i)"
      using Cons.prems False by (auto simp: nth_append less_Suc_eq)
    have c: "\<forall>j<i. fst (?ys ! j) < fst (?ys ! i)"
      using Cons.prems by (auto simp: nth_append)
    from Cons.IH [OF a b c] False Cons.prems(1) show ?thesis by (simp add: nth_append)
  qed
qed

lemma maxFrictionSegment_first_max:
  assumes "fl \<noteq> []"
  shows "\<exists>k<length fl. maxFrictionSegment fl = fl ! k \<and>
           (\<forall>j<length fl. fst (fl ! j) \<le> fst (fl ! k)) \<and>
           (\<forall>j<k. fst (fl ! j) < fst (fl ! k))"
proof -
  from assms obtain x xs where fl: "fl = x # xs" by (cases fl) auto
  from foldl_first_max [of 0 "[x]" xs] show ?thesis
    by (simp add: maxFrictionSegment_def fl)
qed

lemma first_max_unique:
  fixes g :: "nat \<Rightarrow> real"
  assumes "i < n" "\<forall>j<n. g j \<le> g i" "\<forall>j<i. g j < g i"
    and "k < n" "\<forall>j<n. g j \<le> g k" "\<forall>j<k. g j < g k"
  shows "i = k"
proof (rule ccontr)
  assume "i \<noteq> k"
  then consider "i < k" | "k < i" by linarith
  then show False
  proof cases
    case 1
    with assms(6) have "g i < g k" by blast
    moreover from assms(2,4) have "g k \<le> g i" by blast
    ultimately show False by simp
  next
    case 2
    with assms(3) have "g k < g i" by blast
    moreover from assms(1,5) have "g i \<le> g k" by blast
    ultimately show False by simp
  qed
qed

lemma flowExponent_dominant:
  "flowExponent (map (\<lambda>i. (loss i, regime i)) [0..<n]) =
     (if \<exists>i<n. (\<forall>j<n. loss j \<le> loss i) \<and> (\<forall>j<i. loss j < loss i) \<and> regime i = Laminar
      then 1 else 2)"
proof (cases "n = 0")
  case True
  then show ?thesis by (simp add: flowExponent_def dominantRegime_def)
next
  case False
  let ?fl = "map (\<lambda>i. (loss i, regime i)) [0..<n]"
  from False have ne: "?fl \<noteq> []" by simp
  from maxFrictionSegment_first_max [OF ne]
  obtain k where k: "k < n" "maxFrictionSegment ?fl = (loss k, regime k)"
    "\<forall>j<n. loss j \<le> loss k" "\<forall>j<k. loss j < loss k"
    by auto
  have "(\<exists>i<n. (\<forall>j<n. loss j \<le> loss i) \<and> (\<forall>j<i. loss j < loss i) \<and> regime i = Laminar)
      \<longleftrightarrow> regime k = Laminar"
  proof
    assume "\<exists>i<n. (\<forall>j<n. loss j \<le> loss i) \<and> (\<forall>j<i. loss j < loss i) \<and> regime i = Laminar"
    then obtain i where i: "i < n" "\<forall>j<n. loss j \<le> loss i" "\<forall>j<i. loss j < loss i"
      and l: "regime i = Laminar" by blast
    from first_max_unique [OF i k(1,3,4)] l show "regime k = Laminar" by simp
  next
    assume "regime k = Laminar"
    with k show "\<exists>i<n. (\<forall>j<n. loss j \<le> loss i) \<and> (\<forall>j<i. loss j < loss i) \<and> regime i = Laminar"
      by blast
  qed
  then show ?thesis using False k(2) by (simp add: flowExponent_def dominantRegime_def)
qed

text \<open>
  C2.  On success the maximum flow rate is 0 when the available pressure
  \<open>injectionPressure * 1000 + density * g * wellDepth - bottomholePressure * 1000\<close> is not
  positive; otherwise \<open>Infinity\<close> when the accumulated pressure drop (the sum of friction
  and minor losses over the effective segments, in Pa) is not positive or the flow rate
  is 0; otherwise \<open>flowRate * (available / drop) powr (1 / e)\<close>, where \<open>e\<close> is 1 when the
  effective segment of largest friction loss is laminar (\<open>Re < 2300\<close>) and 2 otherwise.
  Among segments of equal largest loss the reduction keeps the first, and with no
  effective segment the exponent is 2.
\<close>

theorem max_flow_rate:
  assumes "allSegments p = Inr segs" and "calculatePressureDrop p = Inr r"
  shows "maxFlowRate r =
      (if injectionPressure p * 1000 + fluidDensity p * 9.81 * wellDepth p
            - bottomholePressure p * 1000 \<le> 0
       then Finite 0
       else if totalPressureDrop r * 1000 \<le> 0 \<or> flowRate p = 0 then Infinity
       else Finite (flowRate p *
              ((injectionPressure p * 1000 + fluidDensity p * 9.81 * wellDepth p
                  - bottomholePressure p * 1000) / (totalPressureDrop r * 1000))
                powr (1 /
                  (if \<exists>i<length segs.
                        (\<forall>j<length segs.
                           loc_frictionPressureLoss p segs j \<le> loc_frictionPressureLoss p segs i) \<and>
                        (\<forall>j<i. loc_frictionPressureLoss p segs j < loc_frictionPressureLoss p segs i) \<and>
                        loc_flowRegime p segs i = Laminar
                   then 1 else 2)))) \<and>
    totalPressureDrop r * 1000 =
      (\<Sum>i<length segs. loc_frictionPressureLoss p segs i + loc_minorLoss p segs i) \<and>
    (\<forall>i<length segs. loc_flowRegime p segs i = Laminar \<longleftrightarrow> loc_Re p segs i < 2300)"
proof -
  from assms obtain st where st: "marchTo p segs (length segs) = Inr st" and r: "r = assemble p st"
    by (auto elim: calculatePressureDrop_Inr)
  note cf = march_closed_form [OF st]
  have t: "totalPressureDrop r * 1000 = totalPressureDrop_acc st"
    by (simp add: r assemble_fields)
  have e: "flowExponent (frictionLosses st) =
      (if \<exists>i<length segs.
            (\<forall>j<length segs.
               loc_frictionPressureLoss p segs j \<le> loc_frictionPressureLoss p segs i) \<and>
            (\<forall>j<i. loc_frictionPressureLoss p segs j < loc_frictionPressureLoss p segs i) \<and>
            loc_flowRegime p segs i = Laminar
       then 1 else 2)"
    using cf flowExponent_dominant [of "loc_frictionPressureLoss p segs" "loc_flowRegime p segs" "length segs"]
    by simp
  have m: "maxFlowRate r =
     (if availablePressure p \<le> 0 then Finite 0
      else if totalPressureDrop_acc st \<le> 0 \<or> flowRate p = 0 then Infinity
      else Finite (flowRate p *
             (availablePressure p / totalPressureDrop_acc st)
               powr (1 / flowExponent (frictionLosses st))))"
    by (simp only: r assemble_maxFlowRate)
  have s: "totalPressureDrop r * 1000 =
      (\<Sum>i<length segs. loc_frictionPressureLoss p segs i + loc_minorLoss p segs i)"
    using cf t by simp
  have l: "\<forall>i<length segs. loc_flowRegime p segs i = Laminar \<longleftrightarrow> loc_Re p segs i < 2300"
    by (simp add: loc_flowRegime_def LAMINAR_FLOW_LIMIT_def)
  from m s l show ?thesis
    unfolding e t availablePressure_eq by blast
qed


theorem max_flow_rate_witness:
  "(\<exists>r. calculatePressureDrop zeroFlowParams = Inr r \<and> maxFlowRate r = Finite 0) \<and>
   (\<exists>r. calculatePressureDrop (zeroFlowParams\<lparr>bottomholePressure := 10000\<rparr>) = Inr r \<and>
        maxFlowRate r = Infinity) \<and>
   (\<exists>r. calculatePressureDrop (oilParams 0 2) = Inr r \<and>
        totalPressureDrop r * 1000 = 1064 \<and>
        maxFlowRate r = Finite (43200 * pi * (349.025 / 1064)))"
proof -
  let ?segs = "segments zeroFlowParams"
  have d: "\<forall>s \<in> set ?segs. 0 < diameter s"
    by (simp add: zeroFlowParams_def)
  have A: "\<exists>r. calculatePressureDrop zeroFlowParams = Inr r \<and> maxFlowRate r = Finite 0"
  proof -
    have a: "allSegments zeroFlowParams = Inr ?segs"
      by (simp add: allSegments_def openHoleLength_def totalSegmentLength_sum zeroFlowParams_def)
    obtain r where r: "calculatePressureDrop zeroFlowParams = Inr r"
      using calculatePressureDrop_succeeds [OF a d] by blast
    from max_flow_rate [OF a r] have "maxFlowRate r = Finite 0"
      by (simp add: zeroFlowParams_def)
    with r show ?thesis by blast
  qed
  have B: "\<exists>r. calculatePressureDrop (zeroFlowParams\<lparr>bottomholePressure := 10000\<rparr>) = Inr r \<and>
        maxFlowRate r = Infinity"
  proof -
    let ?p = "zeroFlowParams\<lparr>bottomholePressure := 10000\<rparr>"
    have a: "allSegments ?p = Inr ?segs"
      by (simp add: allSegments_def openHoleLength_def totalSegmentLength_sum zeroFlowParams_def)
    obtain r where r: "calculatePressureDrop ?p = Inr r"
      using calculatePressureDrop_succeeds [OF a d] by blast
    from max_flow_rate [OF a r] have "maxFlowRate r = Infinity"
      by (simp add: zeroFlowParams_def)
    with r show ?thesis by blast
  qed
  have C: "\<exists>r. calculatePressureDrop (oilParams 0 2) = Inr r \<and>
        totalPressureDrop r * 1000 = 1064 \<and>
        maxFlowRate r = Finite (43200 * pi * (349.025 / 1064))"
  proof -
    let ?p = "oilParams 0 2" and ?s = "segments (oilParams 0 2)"
    have len: "length ?s = 1" by (simp add: oilParams_def)
    have "\<forall>s \<in> set ?s. 0 < diameter s" by (simp add: oilParams_def)
    then obtain r where r: "calculatePressureDrop ?p = Inr r"
      using calculatePressureDrop_succeeds [OF oil_allSegments] by blast
    have f: "calculateFrictionFactor 2000 0 = 64 / 2000"
      by (simp add: calculateFrictionFactor_def LAMINAR_FLOW_LIMIT_def)
    have loss: "loc_frictionPressureLoss ?p ?s 0 = 64" and minor: "loc_minorLoss ?p ?s 0 = 1000"
      and re: "loc_Re ?p ?s 0 = 2000"
      using oil_locals [of 0 2] f by (simp_all add: power2_eq_square)
    have lam: "loc_flowRegime ?p ?s 0 = Laminar"
      by (simp add: loc_flowRegime_def re LAMINAR_FLOW_LIMIT_def)
    have fields: "injectionPressure ?p = 0" "fluidDensity ?p = 1000" "wellDepth ?p = 1"
      "bottomholePressure ?p = 9.460975" "flowRate ?p = 43200 * pi"
      by (simp_all add: oilParams_def)
    note m = max_flow_rate [OF oil_allSegments r, unfolded len]
    from m have T: "totalPressureDrop r * 1000 = 1064"
      by (simp add: loss minor)
    from m have "maxFlowRate r = Finite (43200 * pi * (349.025 / 1064))"
      unfolding T fields by (simp add: lam)
    with r T show ?thesis by blast
  qed
  from A B C show ?thesis by (intro conjI)
qed

section \<open>The service module and the engine module\<close>

named_theorems service_engine_eqs

lemma CS_calculateReynolds_eq: "CS_calculateReynolds = calculateReynolds"
  by (intro ext) (simp only: CS_calculateReynolds_def calculateReynolds_def service_engine_eqs)

declare CS_calculateReynolds_eq [service_engine_eqs]

lemma CS_calculateTurbulentFriction_eq: "CS_calculateTurbulentFriction = calculateTurbulentFriction"
  by (intro ext) (simp only: CS_calculateTurbulentFriction_def calculateTurbulentFriction_def service_engine_eqs)

declare CS_calculateTurbulentFriction_eq [service_engine_eqs]

lemma CS_calculateFrictionFactor_eq: "CS_calculateFrictionFactor = calculateFrictionFactor"
  by (intro ext) (simp only: CS_calculateFrictionFactor_def calculateFrictionFactor_def service_engine_eqs)

declare CS_calculateFrictionFactor_eq [service_engine_eqs]

lemma CS_totalSegmentLength_eq: "CS_totalSegmentLength = totalSegmentLength"
  by (intro ext) (simp only: CS_totalSegmentLength_def totalSegmentLength_def service_engine_eqs)

declare CS_totalSegmentLength_eq [service_engine_eqs]

lemma CS_openHoleLength_eq: "CS_openHoleLength = openHoleLength"
  by (intro ext) (simp only: CS_openHoleLength_def openHoleLength_def service_engine_eqs)

declare CS_openHoleLength_eq [service_engine_eqs]

lemma CS_openHoleSegment_eq: "CS_openHoleSegment = openHoleSegment"
  by (intro ext) (simp only: CS_openHoleSegment_def openHoleSegment_def service_engine_eqs)

declare CS_openHoleSegment_eq [service_engine_eqs]

lemma CS_allSegments_eq: "CS_allSegments = allSegments"
  by (intro ext) (simp only: CS_allSegments_def allSegments_def service_engine_eqs)

declare CS_allSegments_eq [service_engine_eqs]

lemma CS_loc_Q_eq: "CS_loc_Q = loc_Q"
  by (intro ext) (simp only: CS_loc_Q_def loc_Q_def service_engine_eqs)

declare CS_loc_Q_eq [service_engine_eqs]

lemma CS_loc_D_eq: "CS_loc_D = loc_D"
  by (intro ext) (simp only: CS_loc_D_def loc_D_def service_engine_eqs)

declare CS_loc_D_eq [service_engine_eqs]

lemma CS_loc_L_eq: "CS_loc_L = loc_L"
  by (intro ext) (simp only: CS_loc_L_def loc_L_def service_engine_eqs)

declare CS_loc_L_eq [service_engine_eqs]

lemma CS_loc_A_eq: "CS_loc_A = loc_A"
  by (intro ext) (simp only: CS_loc_A_def loc_A_def service_engine_eqs)

declare CS_loc_A_eq [service_engine_eqs]

lemma CS_loc_V_eq: "CS_loc_V = loc_V"
  by (intro ext) (simp only: CS_loc_V_def loc_V_def service_engine_eqs)

declare CS_loc_V_eq [service_engine_eqs]

lemma CS_loc_Re_eq: "CS_loc_Re = loc_Re"
  by (intro ext) (simp only: CS_loc_Re_def loc_Re_def service_engine_eqs)

declare CS_loc_Re_eq [service_engine_eqs]

lemma CS_loc_relativeRoughness_eq: "CS_loc_relativeRoughness = loc_relativeRoughness"
  by (intro ext) (simp only: CS_loc_relativeRoughness_def loc_relativeRoughness_def service_engine_eqs)

declare CS_loc_relativeRoughness_eq [service_engine_eqs]

lemma CS_loc_f_eq: "CS_loc_f = loc_f"
  by (intro ext) (simp only: CS_loc_f_def loc_f_def service_engine_eqs)

declare CS_loc_f_eq [service_engine_eqs]

lemma CS_loc_hf_eq: "CS_loc_hf = loc_hf"
  by (intro ext) (simp only: CS_loc_hf_def loc_hf_def service_engine_eqs)

declare CS_loc_hf_eq [service_engine_eqs]

lemma CS_loc_frictionPressureLoss_eq: "CS_loc_frictionPressureLoss = loc_frictionPressureLoss"
  by (intro ext) (simp only: CS_loc_frictionPressureLoss_def loc_frictionPressureLoss_def service_engine_eqs)

declare CS_loc_frictionPressureLoss_eq [service_engine_eqs]

lemma CS_loc_hydrostaticGain_eq: "CS_loc_hydrostaticGain = loc_hydrostaticGain"
  by (intro ext) (simp only: CS_loc_hydrostaticGain_def loc_hydrostaticGain_def service_engine_eqs)

declare CS_loc_hydrostaticGain_eq [service_engine_eqs]

lemma CS_loc_minorLoss_eq: "CS_loc_minorLoss = loc_minorLoss"
  by (intro ext) (simp only: CS_loc_minorLoss_def loc_minorLoss_def service_engine_eqs)

declare CS_loc_minorLoss_eq [service_engine_eqs]

lemma CS_loc_netPressureChange_eq: "CS_loc_netPressureChange = loc_netPressureChange"
  by (intro ext) (simp only: CS_loc_netPressureChange_def loc_netPressureChange_def service_engine_eqs)

declare CS_loc_netPressureChange_eq [service_engine_eqs]

lemma CS_loc_flowRegime_eq: "CS_loc_flowRegime = loc_flowRegime"
  by (intro ext) (simp only: CS_loc_flowRegime_def loc_flowRegime_def service_engine_eqs)

declare CS_loc_flowRegime_eq [service_engine_eqs]

lemma CS_cavitationPrefix_eq: "CS_cavitationPrefix = cavitationPrefix"
  by (simp only: CS_cavitationPrefix_def cavitationPrefix_def)

declare CS_cavitationPrefix_eq [service_engine_eqs]

lemma CS_cavitationWarning_eq: "CS_cavitationWarning = cavitationWarning"
  by (intro ext) (simp only: CS_cavitationWarning_def cavitationWarning_def service_engine_eqs)

declare CS_cavitationWarning_eq [service_engine_eqs]

lemma CS_initialState_eq: "CS_initialState = initialState"
  by (intro ext) (simp only: CS_initialState_def initialState_def service_engine_eqs)

declare CS_initialState_eq [service_engine_eqs]

lemma CS_loopBody_eq: "CS_loopBody = loopBody"
  by (intro ext) (simp only: CS_loopBody_def loopBody_def service_engine_eqs)

declare CS_loopBody_eq [service_engine_eqs]

lemma CS_marchTo_eq: "CS_marchTo = marchTo"
  by (intro ext) (simp only: CS_marchTo_def marchTo_def service_engine_eqs)

declare CS_marchTo_eq [service_engine_eqs]

lemma CS_march_eq: "CS_march = march"
  by (intro ext) (simp only: CS_march_def march_def service_engine_eqs)

declare CS_march_eq [service_engine_eqs]

lemma CS_maxFrictionSegment_eq: "CS_maxFrictionSegment = maxFrictionSegment"
  by (intro ext) (simp only: CS_maxFrictionSegment_def maxFrictionSegment_def service_engine_eqs)

declare CS_maxFrictionSegment_eq [service_engine_eqs]

lemma CS_dominantRegime_eq: "CS_dominantRegime = dominantRegime"
  by (intro ext) (simp only: CS_dominantRegime_def dominantRegime_def service_engine_eqs)

declare CS_dominantRegime_eq [service_engine_eqs]

lemma CS_flowExponent_eq: "CS_flowExponent = flowExponent"
  by (intro ext) (simp only: CS_flowExponent_def flowExponent_def service_engine_eqs)

declare CS_flowExponent_eq [service_engine_eqs]

lemma CS_totalHydrostatic_eq: "CS_totalHydrostatic = totalHydrostatic"
  by (intro ext) (simp only: CS_totalHydrostatic_def totalHydrostatic_def service_engine_eqs)

declare CS_totalHydrostatic_eq [service_engine_eqs]

lemma CS_availablePressure_eq: "CS_availablePressure = availablePressure"
  by (intro ext) (simp only: CS_availablePressure_def availablePressure_def service_engine_eqs)

declare CS_availablePressure_eq [service_engine_eqs]

lemma CS_assemble_eq: "CS_assemble = assemble"
  by (intro ext) (simp only: CS_assemble_def assemble_def service_engine_eqs)

declare CS_assemble_eq [service_engine_eqs]

text \<open>
  C10.  \<^verbatim>\<open>CalculatorService\<close> and \<^verbatim>\<open>WellHydraulics\<close> are the same functions: each of
  \<^verbatim>\<open>calculateReynolds\<close>, \<^verbatim>\<open>calculateFrictionFactor\<close> and \<^verbatim>\<open>calculatePressureDrop\<close> returns
  the same result, or throws the same error, on every input.
\<close>

theorem service_equals_engine:
  "CS_calculateReynolds = calculateReynolds \<and>
   CS_calculateFrictionFactor = calculateFrictionFactor \<and>
   CS_calculatePressureDrop = calculatePressureDrop"
proof -
  have "CS_calculatePressureDrop = calculatePressureDrop"
    by (intro ext)
      (simp only: CS_calculatePressureDrop_def calculatePressureDrop_def service_engine_eqs)
  with CS_calculateReynolds_eq CS_calculateFrictionFactor_eq show ?thesis
    by (intro conjI)
qed


end
